theory Spec2Isabelle
  imports Complex_Main "HOL-Library.AList" "HOL-Library.Sublist"
begin

section \<open>Strings\<close>

text \<open>
  JavaScript strings are modelled as \<open>string\<close>: lists of 8-bit characters, read as the
  code points U+0000 to U+00FF (Basic Latin and Latin-1 Supplement). On these,
  \<open>String.prototype.toLowerCase\<close> maps \<open>A\<close>..\<open>Z\<close> (65..90) and the letters U+00C0..U+00DE
  (192..222) other than the multiplication sign U+00D7 (215) to the character 32 places
  higher, and leaves every other character alone. Adding 32 to a character of these ranges
  is setting its bit of value 32.
\<close>

definition toLowerCase_char :: "char \<Rightarrow> char" where
  "toLowerCase_char c =
     (let n = (of_char c :: nat)
      in if (65 \<le> n \<and> n \<le> 90) \<or> (192 \<le> n \<and> n \<le> 222 \<and> n \<noteq> 215)
         then (case c of Char b0 b1 b2 b3 b4 b5 b6 b7 \<Rightarrow> Char b0 b1 b2 b3 b4 True b6 b7)
         else c)"

definition toLowerCase :: "string \<Rightarrow> string" where
  "toLowerCase s = map toLowerCase_char s"

fun startsWith :: "string \<Rightarrow> string \<Rightarrow> bool" where
  "startsWith s [] = True"
| "startsWith [] (p # ps) = False"
| "startsWith (c # cs) (p # ps) = (c = p \<and> startsWith cs ps)"

text \<open>\<open>str_includes s sub\<close> is \<open>s.includes(sub)\<close>: \<open>sub\<close> occurs in \<open>s\<close> as a contiguous run.\<close>

fun str_includes :: "string \<Rightarrow> string \<Rightarrow> bool" where
  "str_includes [] sub = (sub = [])"
| "str_includes (c # cs) sub = (startsWith (c # cs) sub \<or> str_includes cs sub)"

section \<open>Ingredient categorizer\<close>

text \<open>
  \<open>categorizeIngredient(aisle)\<close>. The argument is a string or absent (\<open>null\<close>,
  \<open>undefined\<close>); \<open>(aisle || '')\<close> turns the absent and the empty string into the
  empty string, and \<open>toString\<close> is the identity on strings.
\<close>

definition categorizeIngredient :: "string option \<Rightarrow> string" where
  "categorizeIngredient aisle =
     (let aisleStr = toLowerCase (case aisle of None \<Rightarrow> '''' | Some a \<Rightarrow> a) in
      if str_includes aisleStr ''produce'' \<or> str_includes aisleStr ''vegetable'' \<or> str_includes aisleStr ''fruit''
        then ''produce''
      else if str_includes aisleStr ''meat'' \<or> str_includes aisleStr ''seafood'' \<or> str_includes aisleStr ''poultry''
        then ''meat''
      else if str_includes aisleStr ''dairy'' \<or> str_includes aisleStr ''cheese'' \<or> str_includes aisleStr ''milk''
        then ''dairy''
      else if str_includes aisleStr ''bread'' \<or> str_includes aisleStr ''bakery'' \<or> str_includes aisleStr ''grain''
        then ''grains''
      else if str_includes aisleStr ''spice'' \<or> str_includes aisleStr ''condiment'' \<or> str_includes aisleStr ''oil''
        then ''spices''
      else if str_includes aisleStr ''canned'' \<or> str_includes aisleStr ''jar''
        then ''pantry''
      else ''other'')"

text \<open>
  The categorizer as the specification words it: a table of six rules in priority order,
  each a category with its substrings; the first rule with a substring occurring in the
  lowercased hint gives the category, and \<open>other\<close> is the answer when no rule applies.
\<close>

definition category_rules :: "(string \<times> string list) list" where
  "category_rules =
     [(''produce'', [''produce'', ''vegetable'', ''fruit'']),
      (''meat'', [''meat'', ''seafood'', ''poultry'']),
      (''dairy'', [''dairy'', ''cheese'', ''milk'']),
      (''grains'', [''bread'', ''bakery'', ''grain'']),
      (''spices'', [''spice'', ''condiment'', ''oil'']),
      (''pantry'', [''canned'', ''jar''])]"

definition categorize_spec :: "string option \<Rightarrow> string" where
  "categorize_spec hint =
     (let h = toLowerCase (case hint of None \<Rightarrow> '''' | Some a \<Rightarrow> a) in
      case find (\<lambda>rule. list_ex (str_includes h) (snd rule)) category_rules of
        None \<Rightarrow> ''other''
      | Some rule \<Rightarrow> fst rule)"

section \<open>Data model\<close>

text \<open>
  A JavaScript number is a finite value, negative zero, an infinity or \<open>NaN\<close>. Of the
  numbers, the zeros and \<open>NaN\<close> are falsy. The addition of two numbers is the rounding
  addition of IEEE 754 doubles; the model does not define it: every function that adds
  numbers takes the addition as its argument \<open>js_add\<close>, and the theorems hold for every
  \<open>js_add\<close>.
\<close>

datatype js_number = Finite real | NegZero | PosInfinity | NegInfinity | NaN

definition truthy :: "js_number \<Rightarrow> bool" where
  "truthy n \<longleftrightarrow> n \<noteq> Finite 0 \<and> n \<noteq> NegZero \<and> n \<noteq> NaN"

text \<open>
  An ingredient as the aggregator reads it: \<open>name\<close>, and the optional \<open>amount\<close>,
  \<open>unit\<close> and \<open>aisle\<close>. A recipe is always an object; of its fields the program reads
  \<open>extendedIngredients\<close>, which may be absent.
\<close>

record ingredient =
  ing_name :: string
  ing_amount :: "js_number option"
  ing_unit :: "string option"
  ing_aisle :: "string option"

record recipe =
  recipe_id :: nat
  title :: string
  extendedIngredients :: "ingredient list option"

text \<open>
  A JavaScript object is the list of its own properties in the order \<open>Object.keys\<close>
  reports them: the keys that are array indices first, in ascending numeric order, then
  the other keys in the order of their creation (\<open>JSON.stringify\<close> and \<open>JSON.parse\<close>
  keep that order). Reading a property that the object does not own continues in
  \<open>Object.prototype\<close>, which is taken to hold its twelve standard properties and no
  other; they are built-in objects and so are truthy.
\<close>

type_synonym 'v js_object = "(string \<times> 'v) list"

datatype 'v property = Own 'v | Inherited | Undefined

definition object_prototype_keys :: "string list" where
  "object_prototype_keys =
     [''constructor'', ''__defineGetter__'', ''__defineSetter__'', ''hasOwnProperty'',
      ''__lookupGetter__'', ''__lookupSetter__'', ''isPrototypeOf'', ''propertyIsEnumerable'',
      ''toString'', ''valueOf'', ''__proto__'', ''toLocaleString'']"

definition get_property :: "'v js_object \<Rightarrow> string \<Rightarrow> 'v property" where
  "get_property obj k =
     (case map_of obj k of
        Some v \<Rightarrow> Own v
      | None \<Rightarrow> if k \<in> set object_prototype_keys then Inherited else Undefined)"

text \<open>
  An array index is the decimal numeral, without a leading zero, of a number below
  \<open>2^32 - 1\<close>.
\<close>

definition is_digit :: "char \<Rightarrow> bool" where
  "is_digit c \<longleftrightarrow> c \<in> set ''0123456789''"

definition digits_value :: "string \<Rightarrow> nat" where
  "digits_value k = fold (\<lambda>c n. 10 * n + (of_char c - 48)) k 0"

definition array_index :: "string \<Rightarrow> nat option" where
  "array_index k =
     (if k \<noteq> [] \<and> list_all is_digit k \<and> (k = ''0'' \<or> hd k \<noteq> CHR ''0'')
         \<and> digits_value k < 4294967295
      then Some (digits_value k) else None)"

text \<open>
  \<open>obj[k] = v\<close> on an ordinary object: an own property keeps its place and takes the new
  value; a new property is created after the existing ones, except that a new array index
  goes after the smaller indices and before everything else. The key \<open>__proto__\<close> is the
  prototype accessor: assigning an object or \<open>null\<close> to it changes the prototype and
  creates no own property.
\<close>

definition precedes :: "nat \<Rightarrow> string \<Rightarrow> bool" where
  "precedes n k = (case array_index k of None \<Rightarrow> False | Some m \<Rightarrow> m < n)"

definition create_property :: "'v js_object \<Rightarrow> string \<Rightarrow> 'v \<Rightarrow> 'v js_object" where
  "create_property obj k v =
     (case array_index k of
        None \<Rightarrow> obj @ [(k, v)]
      | Some n \<Rightarrow> takeWhile (\<lambda>p. precedes n (fst p)) obj @ (k, v) # dropWhile (\<lambda>p. precedes n (fst p)) obj)"

definition set_property :: "'v js_object \<Rightarrow> string \<Rightarrow> 'v \<Rightarrow> 'v js_object" where
  "set_property obj k v =
     (if k = ''__proto__'' then obj
      else if k \<in> set (map fst obj) then AList.update k v obj
      else create_property obj k v)"

type_synonym day_slots = "recipe option js_object"
type_synonym meal_plan = "day_slots js_object"

text \<open>The objects handed to \<open>addToShoppingList\<close> carry a name and a category (the empty
  string stands for an absent one); the aggregator's entries extend them.\<close>

record named_item =
  name :: string
  category :: string

record aggregated = named_item +
  amount :: js_number
  unit_of :: string
  checked :: bool

record shopping_item =
  item_id :: nat
  item_name :: string
  item_category :: string
  item_checked :: bool
  addedAt :: nat

section \<open>Storage\<close>

text \<open>
  The two \<open>localStorage\<close> entries the operations below use. \<open>None\<close> is a key that was
  never written, for which \<open>getFromStorage\<close> returns \<open>null\<close>. The model covers the runs
  in which \<open>localStorage\<close> itself does not throw, so \<open>saveToStorage\<close> stores the value
  and returns \<open>true\<close>.
\<close>

record storage =
  MEAL_PLAN :: "meal_plan option"
  SHOPPING_LIST :: "shopping_item list option"

definition empty_storage :: storage where
  "empty_storage = \<lparr>MEAL_PLAN = None, SHOPPING_LIST = None\<rparr>"

datatype 'a outcome = Returned 'a | Threw

section \<open>Meal plan\<close>

definition days :: "string list" where
  "days = [''monday'', ''tuesday'', ''wednesday'', ''thursday'', ''friday'', ''saturday'', ''sunday'']"

definition mealTypes :: "string list" where
  "mealTypes = [''breakfast'', ''lunch'', ''dinner'']"

definition emptyPlan :: meal_plan where
  "emptyPlan =
     [(''monday'', [(''breakfast'', None), (''lunch'', None), (''dinner'', None)]),
      (''tuesday'', [(''breakfast'', None), (''lunch'', None), (''dinner'', None)]),
      (''wednesday'', [(''breakfast'', None), (''lunch'', None), (''dinner'', None)]),
      (''thursday'', [(''breakfast'', None), (''lunch'', None), (''dinner'', None)]),
      (''friday'', [(''breakfast'', None), (''lunch'', None), (''dinner'', None)]),
      (''saturday'', [(''breakfast'', None), (''lunch'', None), (''dinner'', None)]),
      (''sunday'', [(''breakfast'', None), (''lunch'', None), (''dinner'', None)])]"

definition getMealPlan :: "storage \<Rightarrow> meal_plan" where
  "getMealPlan st = (case MEAL_PLAN st of None \<Rightarrow> emptyPlan | Some p \<Rightarrow> p)"

text \<open>
  \<open>addMealToPlan(day, mealType, recipe)\<close>. The guard \<open>!mealPlan[day]\<close> reads the
  property \<open>day\<close>: a day the plan owns gives its slot object; a name inherited from
  \<open>Object.prototype\<close> gives a built-in object, the guard lets it pass, the assignment lands
  on that built-in object and the plan is saved as it was read; any other name gives
  \<open>undefined\<close> and the function returns \<open>false\<close> without saving. The one assignment
  that throws is \<open>mealPlan['__proto__']['__proto__'] = recipe\<close>, since the prototype of
  \<open>Object.prototype\<close> cannot be changed.
\<close>

definition addMealToPlan :: "string \<Rightarrow> string \<Rightarrow> recipe \<Rightarrow> storage \<Rightarrow> bool outcome \<times> storage" where
  "addMealToPlan day mealType recipe st =
     (let mealPlan = getMealPlan st in
      case get_property mealPlan day of
        Undefined \<Rightarrow> (Returned False, st)
      | Inherited \<Rightarrow>
          if day = ''__proto__'' \<and> mealType = ''__proto__'' then (Threw, st)
          else (Returned True, st\<lparr>MEAL_PLAN := Some mealPlan\<rparr>)
      | Own slots \<Rightarrow>
          (Returned True,
           st\<lparr>MEAL_PLAN := Some (AList.update day (set_property slots mealType (Some recipe)) mealPlan)\<rparr>))"

text \<open>\<open>removeMealFromPlan(day, mealType)\<close>: the same guard, and \<open>null\<close> is assigned.\<close>

definition removeMealFromPlan :: "string \<Rightarrow> string \<Rightarrow> storage \<Rightarrow> bool \<times> storage" where
  "removeMealFromPlan day mealType st =
     (let mealPlan = getMealPlan st in
      case get_property mealPlan day of
        Undefined \<Rightarrow> (False, st)
      | Inherited \<Rightarrow> (True, st\<lparr>MEAL_PLAN := Some mealPlan\<rparr>)
      | Own slots \<Rightarrow>
          (True, st\<lparr>MEAL_PLAN := Some (AList.update day (set_property slots mealType None) mealPlan)\<rparr>))"

definition clearMealPlan :: "storage \<Rightarrow> storage" where
  "clearMealPlan st = st\<lparr>MEAL_PLAN := Some emptyPlan\<rparr>"

text \<open>
  \<open>getAllMealsFromPlan()\<close>: the two nested \<open>Object.keys(...).forEach\<close> loops, pushing
  \<open>{day, mealType, recipe}\<close> for every slot whose value is truthy.
\<close>

definition meals_of_day :: "string \<Rightarrow> day_slots \<Rightarrow> (string \<times> string \<times> recipe) list" where
  "meals_of_day day slots =
     concat (map (\<lambda>mealType. case map_of slots mealType of
                                Some (Some meal) \<Rightarrow> [(day, mealType, meal)]
                              | _ \<Rightarrow> [])
                 (map fst slots))"

definition getAllMealsFromPlan :: "storage \<Rightarrow> (string \<times> string \<times> recipe) list" where
  "getAllMealsFromPlan st =
     (let mealPlan = getMealPlan st in
      concat (map (\<lambda>day. case map_of mealPlan day of
                            Some slots \<Rightarrow> meals_of_day day slots
                          | None \<Rightarrow> [])
                  (map fst mealPlan)))"

text \<open>
  \<open>generateAutoMealPlan()\<close> of the meal planner page, without its button and toasts.
  \<open>configured\<close> is the answer of \<open>API.isAPIKeyConfigured()\<close> and \<open>recipes\<close> the array that
  \<open>API.getRandomRecipes(21)\<close> resolves to. The plan is cleared before the recipes are
  looked at; an empty array throws, which the function itself catches. The loops read
  \<open>recipes[recipeIndex]\<close>, which is \<open>undefined\<close> past the end of the array, and ignore
  what \<open>addMealToPlan\<close> returns (it does not throw for any of the seven days).
\<close>

fun assign_mealTypes :: "recipe list \<Rightarrow> string \<Rightarrow> string list \<Rightarrow> nat \<times> storage \<Rightarrow> nat \<times> storage" where
  "assign_mealTypes recipes day [] s = s"
| "assign_mealTypes recipes day (mealType # rest) (recipeIndex, st) =
     assign_mealTypes recipes day rest
       (if recipeIndex < length recipes
        then (Suc recipeIndex, snd (addMealToPlan day mealType (recipes ! recipeIndex) st))
        else (recipeIndex, st))"

fun assign_days :: "recipe list \<Rightarrow> string list \<Rightarrow> nat \<times> storage \<Rightarrow> nat \<times> storage" where
  "assign_days recipes [] s = s"
| "assign_days recipes (day # rest) s =
     assign_days recipes rest (assign_mealTypes recipes day mealTypes s)"

definition generateAutoMealPlan :: "bool \<Rightarrow> recipe list \<Rightarrow> storage \<Rightarrow> storage" where
  "generateAutoMealPlan configured recipes st =
     (if \<not> configured then st
      else let cleared = clearMealPlan st in
           if recipes = [] then cleared
           else snd (assign_days recipes days (0, cleared)))"

section \<open>Shopping list\<close>

definition getShoppingList :: "storage \<Rightarrow> shopping_item list" where
  "getShoppingList st = (case SHOPPING_LIST st of None \<Rightarrow> [] | Some l \<Rightarrow> l)"

text \<open>
  \<open>addToShoppingList(item)\<close>. \<open>Date.now()\<close> is called twice, for \<open>id\<close> and for
  \<open>addedAt\<close>; the two readings of the clock are the arguments \<open>now_id\<close> and
  \<open>now_added\<close>. Only \<open>item.name\<close> and \<open>item.category\<close> are read.
\<close>

definition addToShoppingList ::
    "nat \<Rightarrow> nat \<Rightarrow> 'a named_item_scheme \<Rightarrow> storage \<Rightarrow> bool \<times> storage" where
  "addToShoppingList now_id now_added item st =
     (let list = getShoppingList st;
          exists = list_ex (\<lambda>i. toLowerCase (item_name i) = toLowerCase (name item)) list
      in if exists then (False, st)
         else (True,
               st\<lparr>SHOPPING_LIST := Some (list @
                  [\<lparr>item_id = now_id,
                    item_name = name item,
                    item_category = (if category item = [] then ''other'' else category item),
                    item_checked = False,
                    addedAt = now_added\<rparr>])\<rparr>))"

definition removeFromShoppingList :: "nat \<Rightarrow> storage \<Rightarrow> storage" where
  "removeFromShoppingList itemId st =
     (let list = getShoppingList st;
          filtered = filter (\<lambda>item. item_id item \<noteq> itemId) list
      in st\<lparr>SHOPPING_LIST := Some filtered\<rparr>)"

text \<open>\<open>list.find\<close> gives the first item with the id; its \<open>checked\<close> flag is flipped in
  place, inside the list that is saved.\<close>

fun toggle_first :: "nat \<Rightarrow> shopping_item list \<Rightarrow> shopping_item list" where
  "toggle_first itemId [] = []"
| "toggle_first itemId (i # rest) =
     (if item_id i = itemId then i\<lparr>item_checked := \<not> item_checked i\<rparr> # rest
      else i # toggle_first itemId rest)"

definition toggleShoppingItem :: "nat \<Rightarrow> storage \<Rightarrow> bool \<times> storage" where
  "toggleShoppingItem itemId st =
     (let list = getShoppingList st in
      case find (\<lambda>i. item_id i = itemId) list of
        None \<Rightarrow> (False, st)
      | Some item \<Rightarrow> (True, st\<lparr>SHOPPING_LIST := Some (toggle_first itemId list)\<rparr>))"

definition clearShoppingList :: "storage \<Rightarrow> storage" where
  "clearShoppingList st = st\<lparr>SHOPPING_LIST := Some []\<rparr>"

section \<open>Shopping list aggregator\<close>

text \<open>
  \<open>generateShoppingListFromMealPlan()\<close>. The \<open>Map\<close> is the list of its entries in
  insertion order, which is the order \<open>ingredients.values()\<close> yields. An ingredient whose
  name is already a key adds \<open>ingredient.amount || 0\<close> to the amount of the entry
  (\<open>existing.amount += ...\<close>, the entry's amount on the left), which keeps its place;
  a new name is appended with \<open>ingredient.unit || ''\<close> and the category of
  \<open>ingredient.aisle || ingredient.name\<close>. \<open>ingredient.amount || 0\<close> is 0 for an absent
  and for a falsy amount.
\<close>

type_synonym ingredient_map = "(string \<times> aggregated) list"

definition amount_or_0 :: "ingredient \<Rightarrow> js_number" where
  "amount_or_0 ingredient =
     (case ing_amount ingredient of
        None \<Rightarrow> Finite 0
      | Some a \<Rightarrow> if truthy a then a else Finite 0)"

definition unit_or_empty :: "ingredient \<Rightarrow> string" where
  "unit_or_empty ingredient = (case ing_unit ingredient of None \<Rightarrow> [] | Some u \<Rightarrow> u)"

definition aisle_or_name :: "ingredient \<Rightarrow> string" where
  "aisle_or_name ingredient =
     (case ing_aisle ingredient of
        None \<Rightarrow> ing_name ingredient
      | Some a \<Rightarrow> if a = [] then ing_name ingredient else a)"

definition add_ingredient ::
    "(js_number \<Rightarrow> js_number \<Rightarrow> js_number) \<Rightarrow> ingredient \<Rightarrow> ingredient_map \<Rightarrow> ingredient_map" where
  "add_ingredient js_add ingredient ingredients =
     (let key = ing_name ingredient;
          cat = categorizeIngredient (Some (aisle_or_name ingredient))
      in case map_of ingredients key of
           Some existing \<Rightarrow>
             AList.update key (existing\<lparr>amount := js_add (amount existing) (amount_or_0 ingredient)\<rparr>)
               ingredients
         | None \<Rightarrow>
             ingredients @
               [(key, \<lparr>name = key, category = cat, amount = amount_or_0 ingredient,
                       unit_of = unit_or_empty ingredient, checked = False\<rparr>)])"

definition add_recipe ::
    "(js_number \<Rightarrow> js_number \<Rightarrow> js_number) \<Rightarrow> recipe \<Rightarrow> ingredient_map \<Rightarrow> ingredient_map" where
  "add_recipe js_add recipe ingredients =
     (case extendedIngredients recipe of
        None \<Rightarrow> ingredients
      | Some ings \<Rightarrow> fold (add_ingredient js_add) ings ingredients)"

definition generateShoppingListFromMealPlan ::
    "(js_number \<Rightarrow> js_number \<Rightarrow> js_number) \<Rightarrow> storage \<Rightarrow> aggregated list" where
  "generateShoppingListFromMealPlan js_add st =
     (let meals = getAllMealsFromPlan st in
      map snd (fold (\<lambda>(day, mealType, recipe). add_recipe js_add recipe) meals []))"

text \<open>
  \<open>generateShoppingList()\<close> of the shopping list page, without its toasts: nothing
  happens when the plan yields no item, otherwise the stored list is cleared and every
  generated item goes through \<open>addToShoppingList\<close>. \<open>clock k\<close> is the pair of clock
  readings taken while item number \<open>k\<close> is added.
\<close>

fun add_each :: "(nat \<Rightarrow> nat \<times> nat) \<Rightarrow> nat \<Rightarrow> 'a named_item_scheme list \<Rightarrow> storage \<Rightarrow> storage" where
  "add_each clock k [] st = st"
| "add_each clock k (item # items) st =
     add_each clock (Suc k) items
       (snd (addToShoppingList (fst (clock k)) (snd (clock k)) item st))"

definition generateShoppingList ::
    "(js_number \<Rightarrow> js_number \<Rightarrow> js_number) \<Rightarrow> (nat \<Rightarrow> nat \<times> nat) \<Rightarrow> storage \<Rightarrow> storage" where
  "generateShoppingList js_add clock st =
     (let items = generateShoppingListFromMealPlan js_add st in
      if items = [] then st
      else add_each clock 0 items (clearShoppingList st))"

section \<open>Vocabulary of the properties\<close>

subsection \<open>Slots of a meal plan\<close>

text \<open>
  \<open>slot plan day mealType\<close> reads one slot: \<open>None\<close> when the plan has no such slot,
  \<open>Some None\<close> for an empty slot (\<open>null\<close>), \<open>Some (Some r)\<close> for a slot holding the
  recipe \<open>r\<close>. \<open>traversal\<close> lists the 21 slots day-major and meal-minor.
\<close>

definition slot :: "meal_plan \<Rightarrow> string \<Rightarrow> string \<Rightarrow> recipe option option" where
  "slot plan day mealType =
     (case map_of plan day of None \<Rightarrow> None | Some slots \<Rightarrow> map_of slots mealType)"

definition traversal :: "(string \<times> string) list" where
  "traversal = concat (map (\<lambda>day. map (\<lambda>mealType. (day, mealType)) mealTypes) days)"

text \<open>
  A plan has exactly the 21 slots when its keys are the seven days in order and the keys
  of every day are the three meal types in order. It keeps the 21 slots when its keys are
  the seven days and every day has the three meal types among its keys, whatever else it
  has.
\<close>

definition exactly_21_slots :: "meal_plan \<Rightarrow> bool" where
  "exactly_21_slots plan \<longleftrightarrow>
     map fst plan = days \<and> list_all (\<lambda>slots. map fst slots = mealTypes) (map snd plan)"

definition keeps_21_slots :: "meal_plan \<Rightarrow> bool" where
  "keeps_21_slots plan \<longleftrightarrow>
     map fst plan = days \<and> list_all (\<lambda>slots. set mealTypes \<subseteq> set (map fst slots)) (map snd plan)"

text \<open>What the assignment \<open>mealPlan[day][mealType] = v\<close> does to a plan that owns \<open>day\<close>.\<close>

definition write_slot :: "meal_plan \<Rightarrow> string \<Rightarrow> string \<Rightarrow> recipe option \<Rightarrow> meal_plan" where
  "write_slot plan day mealType v =
     (case map_of plan day of
        None \<Rightarrow> plan
      | Some slots \<Rightarrow> AList.update day (set_property slots mealType v) plan)"

definition write_all :: "((string \<times> string) \<times> recipe) list \<Rightarrow> meal_plan \<Rightarrow> meal_plan" where
  "write_all ws plan = fold (\<lambda>w p. write_slot p (fst (fst w)) (snd (fst w)) (Some (snd w))) ws plan"

text \<open>One round of the inner loop of \<open>generateAutoMealPlan\<close>, for the slot \<open>sl\<close>.\<close>

definition assign_slot :: "recipe list \<Rightarrow> string \<times> string \<Rightarrow> nat \<times> storage \<Rightarrow> nat \<times> storage" where
  "assign_slot recipes sl s =
     (if fst s < length recipes
      then (Suc (fst s), snd (addMealToPlan (fst sl) (snd sl) (recipes ! fst s) (snd s)))
      else s)"

subsection \<open>Sequences of meal plan operations\<close>

text \<open>
  The operations that change the stored plan, with their arguments; \<open>get\<close> only reads.
  \<open>run ops st\<close> is the storage after the operations \<open>ops\<close>, in order, from \<open>st\<close>.
  An operation has a valid meal type when it names none or one of the three.
\<close>

datatype operation =
    SetMeal string string recipe
  | ClearMeal string string
  | ClearAll
  | AutoGenerate bool "recipe list"

fun apply_operation :: "operation \<Rightarrow> storage \<Rightarrow> storage" where
  "apply_operation (SetMeal day mealType recipe) st = snd (addMealToPlan day mealType recipe st)"
| "apply_operation (ClearMeal day mealType) st = snd (removeMealFromPlan day mealType st)"
| "apply_operation ClearAll st = clearMealPlan st"
| "apply_operation (AutoGenerate configured recipes) st = generateAutoMealPlan configured recipes st"

definition run :: "operation list \<Rightarrow> storage \<Rightarrow> storage" where
  "run ops st = fold apply_operation ops st"

fun valid_mealType :: "operation \<Rightarrow> bool" where
  "valid_mealType (SetMeal day mealType recipe) = (mealType \<in> set mealTypes)"
| "valid_mealType (ClearMeal day mealType) = (mealType \<in> set mealTypes)"
| "valid_mealType ClearAll = True"
| "valid_mealType (AutoGenerate configured recipes) = True"

subsection \<open>Ingredients of a plan and merged entries\<close>

text \<open>
  \<open>first_seen xs\<close> keeps the first occurrence of every element of \<open>xs\<close>, in order.
  \<open>plan_ingredients st\<close> is every ingredient of every meal of the stored plan, in the
  order \<open>getAllMealsFromPlan\<close> yields the meals; a recipe without an ingredient list
  contributes nothing.
\<close>

fun first_seen :: "'a list \<Rightarrow> 'a list" where
  "first_seen [] = []"
| "first_seen (x # xs) = x # filter (\<lambda>y. y \<noteq> x) (first_seen xs)"

definition recipe_ingredients :: "recipe \<Rightarrow> ingredient list" where
  "recipe_ingredients recipe = (case extendedIngredients recipe of None \<Rightarrow> [] | Some ings \<Rightarrow> ings)"

definition plan_ingredients :: "storage \<Rightarrow> ingredient list" where
  "plan_ingredients st = concat (map (\<lambda>meal. recipe_ingredients (snd (snd meal))) (getAllMealsFromPlan st))"

definition slot_ingredients :: "recipe option option \<Rightarrow> ingredient list" where
  "slot_ingredients s = (case s of Some (Some recipe) \<Rightarrow> recipe_ingredients recipe | _ \<Rightarrow> [])"

definition slot_meal :: "meal_plan \<Rightarrow> string \<Rightarrow> string \<Rightarrow> (string \<times> string \<times> recipe) list" where
  "slot_meal plan d m = (case slot plan d m of Some (Some r) \<Rightarrow> [(d, m, r)] | _ \<Rightarrow> [])"

text \<open>
  The entry the specification describes for the name \<open>n\<close>: of the ingredients named
  exactly \<open>n\<close>, the first gives the unit, the category and the starting amount, and the
  amounts of the others are added to it one after the other, from the left (an absent or
  falsy amount counts 0).
\<close>

definition named :: "string \<Rightarrow> ingredient list \<Rightarrow> ingredient list" where
  "named n ings = filter (\<lambda>i. ing_name i = n) ings"

definition merged_entry ::
    "(js_number \<Rightarrow> js_number \<Rightarrow> js_number) \<Rightarrow> string \<Rightarrow> ingredient list \<Rightarrow> aggregated" where
  "merged_entry js_add n ings =
     (case named n ings of
        [] \<Rightarrow> \<lparr>name = n, category = [], amount = Finite 0, unit_of = [], checked = False\<rparr>
      | f # rest \<Rightarrow>
          \<lparr>name = n,
           category = categorizeIngredient (Some (aisle_or_name f)),
           amount = foldl js_add (amount_or_0 f) (map amount_or_0 rest),
           unit_of = unit_or_empty f,
           checked = False\<rparr>)"

text \<open>
  The slots of a stored plan in the order of its keys, the order in which
  \<open>getAllMealsFromPlan\<close> walks them.
\<close>

definition stored_slots :: "meal_plan \<Rightarrow> (string \<times> string) list" where
  "stored_slots plan = concat (map (\<lambda>day. map (\<lambda>mealType. (day, mealType))
       (case map_of plan day of None \<Rightarrow> [] | Some slots \<Rightarrow> map fst slots)) (map fst plan))"

text \<open>
  An entry of a committed sequence is the first with its name up to case when no entry
  before it has that name up to case.
\<close>

definition first_up_to_case :: "'a named_item_scheme list \<Rightarrow> nat \<Rightarrow> bool" where
  "first_up_to_case items j \<longleftrightarrow>
     toLowerCase (name (items ! j)) \<notin> set (map (\<lambda>a. toLowerCase (name a)) (take j items))"

subsection \<open>Items of the shopping list\<close>

text \<open>
  \<open>stored_item reading item\<close> is the object \<open>addToShoppingList\<close> pushes for \<open>item\<close>
  when the clock readings are \<open>reading\<close>; \<open>already_listed\<close> is its duplicate test.
  \<open>first_with_id\<close> is the position of the first item with an id (the length of the list
  when there is none), and \<open>flip_checked\<close> negates the \<open>checked\<close> flag.
\<close>

definition stored_item :: "nat \<times> nat \<Rightarrow> 'a named_item_scheme \<Rightarrow> shopping_item" where
  "stored_item reading item =
     \<lparr>item_id = fst reading, item_name = name item,
      item_category = (if category item = [] then ''other'' else category item),
      item_checked = False, addedAt = snd reading\<rparr>"

definition already_listed :: "'a named_item_scheme \<Rightarrow> shopping_item list \<Rightarrow> bool" where
  "already_listed item list = list_ex (\<lambda>i. toLowerCase (item_name i) = toLowerCase (name item)) list"

fun first_with_id :: "nat \<Rightarrow> shopping_item list \<Rightarrow> nat" where
  "first_with_id itemId [] = 0"
| "first_with_id itemId (i # rest) = (if item_id i = itemId then 0 else Suc (first_with_id itemId rest))"

definition flip_checked :: "shopping_item \<Rightarrow> shopping_item" where
  "flip_checked i = i\<lparr>item_checked := \<not> item_checked i\<rparr>"

subsection \<open>Sample data\<close>

text \<open>
  Three recipes and a week that holds them: flour occurs with the amounts 200 and 150 in
  two slots, and a third slot has \<open>Flour\<close> and one more \<open>flour\<close> without an amount.
\<close>

definition pancakes :: recipe where
  "pancakes = \<lparr>recipe_id = 1, title = ''Pancakes'',
     extendedIngredients = Some [\<lparr>ing_name = ''flour'', ing_amount = Some (Finite 200), ing_unit = Some ''g'',
                                  ing_aisle = Some ''Bakery/Bread''\<rparr>]\<rparr>"

definition waffles :: recipe where
  "waffles = \<lparr>recipe_id = 2, title = ''Waffles'',
     extendedIngredients = Some [\<lparr>ing_name = ''flour'', ing_amount = Some (Finite 150), ing_unit = Some ''cups'',
                                  ing_aisle = Some ''Dairy''\<rparr>]\<rparr>"

definition crepes :: recipe where
  "crepes = \<lparr>recipe_id = 3, title = ''Crepes'',
     extendedIngredients = Some [\<lparr>ing_name = ''Flour'', ing_amount = Some (Finite 100), ing_unit = None, ing_aisle = None\<rparr>,
                                 \<lparr>ing_name = ''flour'', ing_amount = None, ing_unit = Some ''kg'', ing_aisle = None\<rparr>]\<rparr>"

definition flour_week :: storage where
  "flour_week =
     run [SetMeal ''monday'' ''lunch'' pancakes, SetMeal ''monday'' ''dinner'' waffles,
          SetMeal ''thursday'' ''breakfast'' crepes] empty_storage"

text \<open>
  An addition that is exact on finite numbers, as the addition of doubles is on
  \<open>200 + 150\<close> and on \<open>350 + 0\<close>.
\<close>

fun exact_plus :: "js_number \<Rightarrow> js_number \<Rightarrow> js_number" where
  "exact_plus (Finite a) (Finite b) = Finite (a + b)"
| "exact_plus a b = NaN"

definition snack_week :: storage where
  "snack_week = run [SetMeal ''monday'' ''snack'' pancakes] empty_storage"

definition fixed_clock :: "nat \<Rightarrow> nat \<times> nat" where
  "fixed_clock k = (1000, 1000)"

definition flour_350_g :: aggregated where
  "flour_350_g = \<lparr>name = ''flour'', category = ''grains'', amount = Finite 350, unit_of = ''g'', checked = False\<rparr>"

definition flour_2_kg :: aggregated where
  "flour_2_kg = \<lparr>name = ''flour'', category = ''grains'', amount = Finite 2, unit_of = ''kg'', checked = False\<rparr>"

definition milk_list :: storage where
  "milk_list = snd (addToShoppingList 1000 1000 \<lparr>name = ''Milk'', category = ''dairy''\<rparr> empty_storage)"

text \<open>The word cafe with its last letter accented (U+00C9, U+00E9), in capitals and in small
  letters, and a list that holds the first.\<close>

definition cafe_capitals :: string where
  "cafe_capitals = [CHR ''C'', CHR ''A'', CHR ''F'', CHR 0xC9]"

definition cafe_small :: string where
  "cafe_small = [CHR ''c'', CHR ''a'', CHR ''f'', CHR 0xE9]"

definition cafe_list :: storage where
  "cafe_list = snd (addToShoppingList 1000 1000 \<lparr>name = cafe_capitals, category = ''other''\<rparr> empty_storage)"

section \<open>Properties of the string functions\<close>

lemma startsWith_prefix: "startsWith s p \<longleftrightarrow> prefix p s"
  by (induction s p rule: startsWith.induct) auto

lemma includes_sublist: "str_includes s sub \<longleftrightarrow> sublist sub s"
  by (induction s) (auto simp: startsWith_prefix sublist_Cons_right)

lemma toLowerCase_length: "length (toLowerCase s) = length s"
  by (simp add: toLowerCase_def)

lemma toLowerCase_examples:
  "toLowerCase ''ABCDEFGHIJKLMNOPQRSTUVWXYZ'' = ''abcdefghijklmnopqrstuvwxyz''"
  "toLowerCase ''abcxyz 019 @[`{'' = ''abcxyz 019 @[`{''"
  "toLowerCase [CHR 0xC0, CHR 0xC9, CHR 0xD6, CHR 0xD8, CHR 0xDE] = [CHR 0xE0, CHR 0xE9, CHR 0xF6, CHR 0xF8, CHR 0xFE]"
  "toLowerCase [CHR 0xBF, CHR 0xD7, CHR 0xDF, CHR 0xE9, CHR 0xF7, CHR 0xFF] = [CHR 0xBF, CHR 0xD7, CHR 0xDF, CHR 0xE9, CHR 0xF7, CHR 0xFF]"
  "toLowerCase cafe_capitals = cafe_small"
  "toLowerCase cafe_small = cafe_small"
  by (simp_all add: toLowerCase_def toLowerCase_char_def cafe_capitals_def cafe_small_def)

section \<open>Properties of the categorizer\<close>

text \<open>
  C2. The categorizer is a total function of an optional string: on every hint it returns
  what the six-rule table gives on the lowercased hint (first matching rule, \<open>other\<close>
  when none matches, the absent hint read as the empty string). On the hints
  \<open>Fresh Produce\<close>, \<open>Seafood Oil\<close>, the empty string, the absent hint and \<open>CHEESE\<close> it returns
  \<open>produce\<close>, \<open>meat\<close>, \<open>other\<close>, \<open>other\<close> and \<open>dairy\<close>.
\<close>

theorem categorizeIngredient_first_match:
  "categorizeIngredient hint = categorize_spec hint
   \<and> categorizeIngredient (Some ''Fresh Produce'') = ''produce''
   \<and> categorizeIngredient (Some ''Seafood Oil'') = ''meat''
   \<and> categorizeIngredient (Some '''') = ''other''
   \<and> categorizeIngredient None = ''other''
   \<and> categorizeIngredient (Some ''CHEESE'') = ''dairy''"
proof -
  have general: "categorizeIngredient hint = categorize_spec hint"
    by (simp add: categorizeIngredient_def categorize_spec_def category_rules_def Let_def)
  have e1: "categorizeIngredient (Some ''Fresh Produce'') = ''produce''"
    by (simp add: categorizeIngredient_def toLowerCase_def toLowerCase_char_def)
  have e2: "categorizeIngredient (Some ''Seafood Oil'') = ''meat''"
    by (simp add: categorizeIngredient_def toLowerCase_def toLowerCase_char_def)
  have e3: "categorizeIngredient (Some '''') = ''other''"
    by (simp add: categorizeIngredient_def toLowerCase_def)
  have e4: "categorizeIngredient None = ''other''"
    by (simp add: categorizeIngredient_def toLowerCase_def)
  have e5: "categorizeIngredient (Some ''CHEESE'') = ''dairy''"
    by (simp add: categorizeIngredient_def toLowerCase_def toLowerCase_char_def)
  from general e1 e2 e3 e4 e5 show ?thesis by simp
qed

section \<open>Properties of the meal plan\<close>

subsection \<open>Objects as property lists\<close>

lemma keys_update_own: "map_of al k = Some w \<Longrightarrow> map fst (AList.update k v al) = map fst al"
  by (simp add: AList.update_keys map_of_eq_Some_iff weak_map_of_SomeI image_iff)
     (metis fst_conv map_of_SomeD)

lemma map_of_update: "map_of (AList.update k v al) = (map_of al)(k \<mapsto> v)"
  by (rule AList.update_conv')

lemma set_property_examples:
  "set_property [(''breakfast'', a), (''lunch'', b)] ''snack'' v = [(''breakfast'', a), (''lunch'', b), (''snack'', v)]"
  "set_property [(''breakfast'', a), (''lunch'', b)] ''lunch'' v = [(''breakfast'', a), (''lunch'', v)]"
  "set_property [(''2'', a), (''lunch'', b)] ''10'' v = [(''2'', a), (''10'', v), (''lunch'', b)]"
  "set_property [(''2'', a), (''lunch'', b)] ''01'' v = [(''2'', a), (''lunch'', b), (''01'', v)]"
  "set_property [(''breakfast'', a), (''lunch'', b)] ''__proto__'' v = [(''breakfast'', a), (''lunch'', b)]"
  by (simp_all add: set_property_def create_property_def array_index_def is_digit_def digits_value_def
        precedes_def)

lemma keys_create_property:
  "set (map fst (create_property obj k v)) = insert k (set (map fst obj))"
proof (cases "array_index k")
  case None
  then show ?thesis by (simp add: create_property_def)
next
  case (Some n)
  have "set (takeWhile (\<lambda>p. precedes n (fst p)) obj @ dropWhile (\<lambda>p. precedes n (fst p)) obj) = set obj"
    by simp
  then have "set (takeWhile (\<lambda>p. precedes n (fst p)) obj) \<union> set (dropWhile (\<lambda>p. precedes n (fst p)) obj) = set obj"
    by (simp only: set_append)
  then show ?thesis
    by (auto simp: create_property_def Some image_Un [symmetric])
qed

lemma map_of_create_property:
  assumes "k \<notin> set (map fst obj)"
  shows "map_of (create_property obj k v) = (map_of obj)(k \<mapsto> v)"
proof (cases "array_index k")
  case None
  have nk: "map_of obj k = None"
    using assms by (simp add: map_of_eq_None_iff)
  show ?thesis
  proof
    fix x
    show "map_of (create_property obj k v) x = ((map_of obj)(k \<mapsto> v)) x"
      using nk by (auto simp: create_property_def None map_add_def split: option.splits)
  qed
next
  case (Some n)
  let ?P = "\<lambda>p. precedes n (fst p)"
  have split: "obj = takeWhile ?P obj @ dropWhile ?P obj" by simp
  have notin: "map_of (takeWhile ?P obj) k = None"
    using assms by (auto simp: map_of_eq_None_iff dest: set_takeWhileD)
  show ?thesis
  proof
    fix x
    have "map_of obj x = (map_of (dropWhile ?P obj) ++ map_of (takeWhile ?P obj)) x"
      using split by (metis map_of_append)
    then show "map_of (create_property obj k v) x = ((map_of obj)(k \<mapsto> v)) x"
      using notin by (auto simp: create_property_def Some map_add_def split: option.splits)
  qed
qed

lemma map_of_set_property:
  "k \<noteq> ''__proto__'' \<Longrightarrow> map_of (set_property obj k v) = (map_of obj)(k \<mapsto> v)"
  by (simp add: set_property_def map_of_create_property AList.update_conv')

lemma keys_set_property_grow:
  "set (map fst obj) \<subseteq> set (map fst (set_property obj k v))"
  by (auto simp: set_property_def AList.update_keys keys_create_property simp del: set_map)

lemma keys_set_property_valid:
  "map fst slots = mealTypes \<Longrightarrow> m \<in> set mealTypes \<Longrightarrow> map fst (set_property slots m v) = mealTypes"
  by (auto simp: set_property_def AList.update_keys mealTypes_def)

lemma snd_update_list_all:
  "list_all P (map snd al) \<Longrightarrow> P v \<Longrightarrow> list_all P (map snd (AList.update k v al))"
  by (induction al) auto

lemma map_of_list_all:
  "list_all P (map snd al) \<Longrightarrow> map_of al k = Some v \<Longrightarrow> P v"
  by (induction al) (auto split: if_splits)

subsection \<open>Reading and writing slots\<close>

lemma getMealPlan_saved [simp]: "getMealPlan (st\<lparr>MEAL_PLAN := Some p\<rparr>) = p"
  by (simp add: getMealPlan_def)

lemma getMealPlan_empty_storage: "getMealPlan empty_storage = emptyPlan"
  by (simp add: getMealPlan_def empty_storage_def)

lemma getMealPlan_addMealToPlan:
  "getMealPlan (snd (addMealToPlan day mealType recipe st)) = write_slot (getMealPlan st) day mealType (Some recipe)"
  by (auto simp: addMealToPlan_def write_slot_def get_property_def Let_def split: option.splits)

lemma getMealPlan_removeMealFromPlan:
  "getMealPlan (snd (removeMealFromPlan day mealType st)) = write_slot (getMealPlan st) day mealType None"
  by (auto simp: removeMealFromPlan_def write_slot_def get_property_def Let_def split: option.splits)

lemma write_slot_keeps:
  assumes "keeps_21_slots plan"
  shows "keeps_21_slots (write_slot plan day mealType v)"
proof (cases "map_of plan day")
  case None
  with assms show ?thesis by (simp add: write_slot_def)
next
  case (Some slots)
  let ?P = "\<lambda>slots. set mealTypes \<subseteq> set (map fst slots)"
  from assms have k: "map fst plan = days" and a: "list_all ?P (map snd plan)"
    by (simp_all add: keeps_21_slots_def)
  from a Some have "?P slots" by (rule map_of_list_all)
  then have "?P (set_property slots mealType v)"
    using keys_set_property_grow [of slots mealType v] by (rule subset_trans)
  with a have "list_all ?P (map snd (AList.update day (set_property slots mealType v) plan))"
    by (rule snd_update_list_all)
  moreover have "map fst (AList.update day (set_property slots mealType v) plan) = days"
    using Some k by (simp add: keys_update_own)
  ultimately show ?thesis
    by (simp add: keeps_21_slots_def write_slot_def Some)
qed

lemma write_slot_exactly:
  "exactly_21_slots plan \<Longrightarrow> mealType \<in> set mealTypes \<Longrightarrow> exactly_21_slots (write_slot plan day mealType v)"
  unfolding exactly_21_slots_def write_slot_def
  by (auto split: option.splits simp: keys_update_own intro!: snd_update_list_all keys_set_property_valid
           dest: map_of_list_all)

lemma slot_write_slot:
  "mealType \<noteq> ''__proto__'' \<Longrightarrow> map_of plan day \<noteq> None \<Longrightarrow>
   slot (write_slot plan day mealType v) d m = (if d = day \<and> m = mealType then Some v else slot plan d m)"
  by (auto simp: slot_def write_slot_def map_of_set_property map_of_update split: option.splits)

lemma exactly_emptyPlan: "exactly_21_slots emptyPlan"
  by (simp add: exactly_21_slots_def emptyPlan_def days_def mealTypes_def)

lemma exactly_keeps: "exactly_21_slots plan \<Longrightarrow> keeps_21_slots plan"
  by (auto simp: exactly_21_slots_def keeps_21_slots_def list_all_iff simp del: set_map)

lemma exactly_own_day:
  "exactly_21_slots plan \<Longrightarrow> d \<in> set days \<Longrightarrow> map_of plan d \<noteq> None"
  by (metis exactly_21_slots_def map_of_eq_None_iff set_map)

lemma keeps_own_day:
  "keeps_21_slots plan \<Longrightarrow> d \<in> set days \<Longrightarrow> map_of plan d \<noteq> None"
  by (metis keeps_21_slots_def map_of_eq_None_iff set_map)

lemma keeps_no_other_day:
  "keeps_21_slots plan \<Longrightarrow> d \<notin> set days \<Longrightarrow> map_of plan d = None"
  by (metis keeps_21_slots_def map_of_eq_None_iff set_map)

text \<open>
  What the guard of \<open>addMealToPlan\<close> does on a plan that keeps the 21 slots: a name
  that is neither a day nor a property of \<open>Object.prototype\<close> is rejected and nothing is
  saved; a day is accepted and the slot is overwritten, whatever it held.
\<close>

lemma addMealToPlan_unknown_day:
  "keeps_21_slots (getMealPlan st) \<Longrightarrow> day \<notin> set days \<Longrightarrow> day \<notin> set object_prototype_keys \<Longrightarrow>
   addMealToPlan day mealType recipe st = (Returned False, st)"
  by (simp add: addMealToPlan_def get_property_def keeps_no_other_day)

lemma addMealToPlan_valid_day:
  assumes "keeps_21_slots (getMealPlan st)" "day \<in> set days" "mealType \<noteq> ''__proto__''"
  shows "fst (addMealToPlan day mealType recipe st) = Returned True
       \<and> slot (getMealPlan (snd (addMealToPlan day mealType recipe st))) d m
           = (if d = day \<and> m = mealType then Some (Some recipe) else slot (getMealPlan st) d m)"
proof -
  have own: "map_of (getMealPlan st) day \<noteq> None"
    using assms(1,2) by (rule keeps_own_day)
  then have "fst (addMealToPlan day mealType recipe st) = Returned True"
    by (auto simp: addMealToPlan_def get_property_def Let_def)
  then show ?thesis
    using own assms(3) by (simp add: getMealPlan_addMealToPlan slot_write_slot)
qed

lemma addMealToPlan_days_never_throw:
  "day \<in> set days \<Longrightarrow> fst (addMealToPlan day mealType recipe st) \<noteq> Threw"
  by (auto simp: addMealToPlan_def days_def Let_def split: property.splits)

lemma removeMealFromPlan_valid_day:
  assumes "keeps_21_slots (getMealPlan st)" "day \<in> set days" "mealType \<noteq> ''__proto__''"
  shows "fst (removeMealFromPlan day mealType st) = True
       \<and> slot (getMealPlan (snd (removeMealFromPlan day mealType st))) d m
           = (if d = day \<and> m = mealType then Some None else slot (getMealPlan st) d m)"
proof -
  have own: "map_of (getMealPlan st) day \<noteq> None"
    using assms(1,2) by (rule keeps_own_day)
  then have "fst (removeMealFromPlan day mealType st) = True"
    by (auto simp: removeMealFromPlan_def get_property_def Let_def)
  then show ?thesis
    using own assms(3) by (simp add: getMealPlan_removeMealFromPlan slot_write_slot)
qed

text \<open>
  C8. For every stored plan that keeps the 21 slots (every plan the operations can
  produce does) and every recipe \<open>R\<close>: after \<open>addMealToPlan('tuesday', 'lunch', R)\<close> the
  plan read back holds \<open>R\<close> in the slot tuesday lunch; after the following
  \<open>removeMealFromPlan('tuesday', 'lunch')\<close> that slot is empty; and each time every
  other slot reads as it did before the operation.
\<close>

theorem tuesday_lunch_round_trip:
  assumes "keeps_21_slots (getMealPlan st)"
  shows "let st1 = snd (addMealToPlan ''tuesday'' ''lunch'' R st);
             st2 = snd (removeMealFromPlan ''tuesday'' ''lunch'' st1)
         in slot (getMealPlan st1) ''tuesday'' ''lunch'' = Some (Some R)
          \<and> slot (getMealPlan st2) ''tuesday'' ''lunch'' = Some None
          \<and> (\<forall>d m. (d, m) \<noteq> (''tuesday'', ''lunch'') \<longrightarrow>
                slot (getMealPlan st1) d m = slot (getMealPlan st) d m
              \<and> slot (getMealPlan st2) d m = slot (getMealPlan st1) d m)"
proof -
  let ?st1 = "snd (addMealToPlan ''tuesday'' ''lunch'' R st)"
  have tue: "''tuesday'' \<in> set days" by (simp add: days_def)
  have np: "''lunch'' \<noteq> ''__proto__''" by simp
  have k1: "keeps_21_slots (getMealPlan ?st1)"
    using assms by (simp add: getMealPlan_addMealToPlan write_slot_keeps)
  note a = addMealToPlan_valid_day [OF assms tue np, of R]
  note r = removeMealFromPlan_valid_day [OF k1 tue np]
  show ?thesis
    unfolding Let_def using a r by auto
qed

text \<open>
  The round trip over the sample week, with the populated slot monday lunch as the other
  slot: it holds the pancakes before, after the add and after the remove.
\<close>

theorem tuesday_lunch_round_trip_witness:
  "keeps_21_slots (getMealPlan flour_week)
   \<and> slot (getMealPlan (snd (addMealToPlan ''tuesday'' ''lunch'' crepes flour_week))) ''tuesday'' ''lunch''
       = Some (Some crepes)
   \<and> slot (getMealPlan (snd (removeMealFromPlan ''tuesday'' ''lunch''
        (snd (addMealToPlan ''tuesday'' ''lunch'' crepes flour_week))))) ''tuesday'' ''lunch''
       = Some None
   \<and> slot (getMealPlan flour_week) ''monday'' ''lunch'' = Some (Some pancakes)
   \<and> slot (getMealPlan (snd (addMealToPlan ''tuesday'' ''lunch'' crepes flour_week))) ''monday'' ''lunch''
       = Some (Some pancakes)
   \<and> slot (getMealPlan (snd (removeMealFromPlan ''tuesday'' ''lunch''
        (snd (addMealToPlan ''tuesday'' ''lunch'' crepes flour_week))))) ''monday'' ''lunch''
       = Some (Some pancakes)"
proof -
  have p: "getMealPlan flour_week =
     [(''monday'', [(''breakfast'', None), (''lunch'', Some pancakes), (''dinner'', Some waffles)]),
      (''tuesday'', [(''breakfast'', None), (''lunch'', None), (''dinner'', None)]),
      (''wednesday'', [(''breakfast'', None), (''lunch'', None), (''dinner'', None)]),
      (''thursday'', [(''breakfast'', Some crepes), (''lunch'', None), (''dinner'', None)]),
      (''friday'', [(''breakfast'', None), (''lunch'', None), (''dinner'', None)]),
      (''saturday'', [(''breakfast'', None), (''lunch'', None), (''dinner'', None)]),
      (''sunday'', [(''breakfast'', None), (''lunch'', None), (''dinner'', None)])]"
    by (simp add: flour_week_def run_def addMealToPlan_def getMealPlan_empty_storage get_property_def
          emptyPlan_def set_property_def)
  have k: "keeps_21_slots (getMealPlan flour_week)"
    by (simp add: p keeps_21_slots_def days_def mealTypes_def)
  have m: "slot (getMealPlan flour_week) ''monday'' ''lunch'' = Some (Some pancakes)"
    by (simp add: p slot_def)
  show ?thesis
    using k m tuesday_lunch_round_trip [OF k, of crepes] by (simp add: Let_def)
qed

text \<open>
  C7. \<open>addMealToPlan\<close> is meant to report failure for a day that is not one of the seven
  day names. The name \<open>constructor\<close> is not a day, yet \<open>mealPlan['constructor']\<close> is the
  inherited \<open>Object\<close> function, so the guard does not fire: the call saves the plan it
  read and returns \<open>true\<close>.
\<close>

theorem addMealToPlan_inherited_day:
  "''constructor'' \<notin> set days
   \<and> addMealToPlan ''constructor'' ''lunch'' pancakes empty_storage
       = (Returned True, empty_storage\<lparr>MEAL_PLAN := Some emptyPlan\<rparr>)"
  by (simp add: days_def addMealToPlan_def getMealPlan_empty_storage get_property_def emptyPlan_def
        object_prototype_keys_def)

subsection \<open>The automatic plan\<close>

lemma assign_mealTypes_fold:
  "assign_mealTypes recipes day ms s = fold (assign_slot recipes) (map (\<lambda>m. (day, m)) ms) s"
proof (induction ms arbitrary: s)
  case Nil
  show ?case by simp
next
  case (Cons m ms)
  obtain i st where s: "s = (i, st)" by (cases s)
  show ?case using Cons.IH by (simp add: s assign_slot_def)
qed

lemma assign_days_fold:
  "assign_days recipes ds s =
     fold (assign_slot recipes) (concat (map (\<lambda>day. map (\<lambda>m. (day, m)) mealTypes) ds)) s"
  by (induction ds arbitrary: s) (simp_all add: assign_mealTypes_fold)

lemma assign_slot_exhausted:
  "length recipes \<le> fst s \<Longrightarrow> fold (assign_slot recipes) sl s = s"
  by (induction sl) (simp_all add: assign_slot_def)

lemma assign_slots_plan:
  "getMealPlan (snd (fold (assign_slot rs) sl (i, st))) = write_all (zip sl (drop i rs)) (getMealPlan st)"
proof (induction sl arbitrary: i st)
  case Nil
  show ?case by (simp add: write_all_def)
next
  case (Cons x sl)
  show ?case
  proof (cases "i < length rs")
    case True
    then have d: "drop i rs = rs ! i # drop (Suc i) rs"
      by (simp add: Cons_nth_drop_Suc)
    have "fold (assign_slot rs) (x # sl) (i, st) =
          fold (assign_slot rs) sl (Suc i, snd (addMealToPlan (fst x) (snd x) (rs ! i) st))"
      using True by (simp add: assign_slot_def)
    then show ?thesis
      using Cons.IH [of "Suc i" "snd (addMealToPlan (fst x) (snd x) (rs ! i) st)"]
      by (simp add: d write_all_def getMealPlan_addMealToPlan)
  next
    case False
    then have "fold (assign_slot rs) (x # sl) (i, st) = (i, st)"
      using assign_slot_exhausted [of rs "(i, st)" "x # sl"] by simp
    with False show ?thesis by (simp add: write_all_def)
  qed
qed

lemma traversal_valid:
  "(d, m) \<in> set traversal \<Longrightarrow> d \<in> set days \<and> m \<in> set mealTypes \<and> m \<noteq> ''__proto__''"
  by (auto simp: traversal_def mealTypes_def)

lemma write_all_exactly:
  "exactly_21_slots plan \<Longrightarrow> fst ` set ws \<subseteq> set traversal \<Longrightarrow> exactly_21_slots (write_all ws plan)"
proof (induction ws arbitrary: plan)
  case Nil
  then show ?case by (simp add: write_all_def)
next
  case (Cons w ws)
  from Cons.prems have "fst w \<in> set traversal" by simp
  then have "snd (fst w) \<in> set mealTypes"
    using traversal_valid [of "fst (fst w)" "snd (fst w)"] by simp
  then have "exactly_21_slots (write_slot plan (fst (fst w)) (snd (fst w)) (Some (snd w)))"
    using Cons.prems(1) by (rule write_slot_exactly [rotated])
  then show ?case using Cons.IH Cons.prems(2) by (simp add: write_all_def)
qed

lemma write_all_other:
  "exactly_21_slots plan \<Longrightarrow> fst ` set ws \<subseteq> set traversal \<Longrightarrow> (d, m) \<notin> fst ` set ws \<Longrightarrow>
   slot (write_all ws plan) d m = slot plan d m"
proof (induction ws arbitrary: plan)
  case Nil
  then show ?case by (simp add: write_all_def)
next
  case (Cons w ws)
  let ?p = "write_slot plan (fst (fst w)) (snd (fst w)) (Some (snd w))"
  from Cons.prems have w: "(fst (fst w), snd (fst w)) \<in> set traversal" by simp
  then have v: "fst (fst w) \<in> set days" "snd (fst w) \<in> set mealTypes" "snd (fst w) \<noteq> ''__proto__''"
    using traversal_valid by blast+
  have ex: "exactly_21_slots ?p"
    using Cons.prems(1) v(2) by (rule write_slot_exactly)
  have "slot (write_all ws ?p) d m = slot ?p d m"
    using Cons.IH [OF ex] Cons.prems by simp
  also have "\<dots> = slot plan d m"
    using Cons.prems(3) v exactly_own_day [OF Cons.prems(1) v(1)]
    by (auto simp: slot_write_slot)
  finally show ?case by (simp add: write_all_def)
qed

lemma write_all_slots:
  "exactly_21_slots plan \<Longrightarrow> set sl \<subseteq> set traversal \<Longrightarrow> distinct sl \<Longrightarrow>
   map (\<lambda>x. slot (write_all (zip sl rs) plan) (fst x) (snd x)) sl =
     map (\<lambda>r. Some (Some r)) (take (length sl) rs) @ map (\<lambda>x. slot plan (fst x) (snd x)) (drop (length rs) sl)"
proof (induction sl arbitrary: rs plan)
  case Nil
  then show ?case by simp
next
  case (Cons x sl)
  show ?case
  proof (cases rs)
    case Nil
    then show ?thesis by (simp add: write_all_def)
  next
    case (Cons r rs')
    let ?p = "write_slot plan (fst x) (snd x) (Some r)"
    from Cons.prems have x: "(fst x, snd x) \<in> set traversal" by simp
    then have v: "fst x \<in> set days" "snd x \<in> set mealTypes" "snd x \<noteq> ''__proto__''"
      using traversal_valid by blast+
    have own: "map_of plan (fst x) \<noteq> None"
      using exactly_own_day Cons.prems(1) v(1) by blast
    have ex: "exactly_21_slots ?p"
      using Cons.prems(1) v(2) by (rule write_slot_exactly)
    have sub: "fst ` set (zip sl rs') \<subseteq> set traversal"
      using Cons.prems(2) by (auto dest: set_zip_leftD)
    have notin: "(fst x, snd x) \<notin> fst ` set (zip sl rs')"
      using Cons.prems(3) by (auto dest: set_zip_leftD)
    have hd: "slot (write_all (zip sl rs') ?p) (fst x) (snd x) = Some (Some r)"
      using write_all_other [OF ex sub notin] own v(3) by (simp add: slot_write_slot)
    have tl: "map (\<lambda>y. slot (write_all (zip sl rs') ?p) (fst y) (snd y)) sl =
          map (\<lambda>r. Some (Some r)) (take (length sl) rs') @ map (\<lambda>y. slot ?p (fst y) (snd y)) (drop (length rs') sl)"
      using Cons.IH [OF ex] Cons.prems by simp
    have same: "map (\<lambda>y. slot ?p (fst y) (snd y)) (drop (length rs') sl) =
          map (\<lambda>y. slot plan (fst y) (snd y)) (drop (length rs') sl)"
    proof (rule map_cong [OF refl])
      fix y assume "y \<in> set (drop (length rs') sl)"
      then have "y \<in> set sl" by (rule in_set_dropD)
      with Cons.prems(3) have "y \<noteq> x" by auto
      then have "fst y \<noteq> fst x \<or> snd y \<noteq> snd x" by (auto simp: prod_eq_iff)
      then show "slot ?p (fst y) (snd y) = slot plan (fst y) (snd y)"
        using own v(3) by (auto simp: slot_write_slot)
    qed
    show ?thesis
      using hd tl same by (simp add: Cons write_all_def)
  qed
qed

lemma traversal_distinct: "distinct traversal"
  by (simp add: traversal_def days_def mealTypes_def)

lemma traversal_length: "length traversal = 21"
  by (simp add: traversal_def days_def mealTypes_def)

lemma emptyPlan_slots: "map (\<lambda>x. slot emptyPlan (fst x) (snd x)) traversal = replicate 21 (Some None)"
  by (simp add: traversal_def days_def mealTypes_def emptyPlan_def slot_def numeral_eq_Suc)

lemma generateAutoMealPlan_plan:
  "getMealPlan (generateAutoMealPlan True rs st) = write_all (zip traversal rs) emptyPlan"
proof (cases "rs = []")
  case True
  then show ?thesis by (simp add: generateAutoMealPlan_def clearMealPlan_def write_all_def)
next
  case False
  have "assign_days rs days (0, clearMealPlan st) = fold (assign_slot rs) traversal (0, clearMealPlan st)"
    by (simp add: assign_days_fold traversal_def)
  then show ?thesis
    using False assign_slots_plan [of rs traversal 0 "clearMealPlan st"]
    by (simp add: generateAutoMealPlan_def clearMealPlan_def)
qed

lemma write_all_traversal_exactly: "exactly_21_slots (write_all (zip traversal rs) emptyPlan)"
  using exactly_emptyPlan
proof (rule write_all_exactly)
  show "fst ` set (zip traversal rs) \<subseteq> set traversal"
    by (auto dest: set_zip_leftD)
qed

lemma generateAutoMealPlan_exactly:
  "exactly_21_slots (getMealPlan st) \<Longrightarrow> exactly_21_slots (getMealPlan (generateAutoMealPlan c rs st))"
proof (cases c)
  case True
  then show ?thesis
    by (simp add: generateAutoMealPlan_plan write_all_traversal_exactly)
next
  case False
  assume "exactly_21_slots (getMealPlan st)"
  with False show ?thesis by (simp add: generateAutoMealPlan_def)
qed

lemma generateAutoMealPlan_keeps:
  "keeps_21_slots (getMealPlan st) \<Longrightarrow> keeps_21_slots (getMealPlan (generateAutoMealPlan c rs st))"
proof (cases c)
  case True
  then show ?thesis
    by (simp add: generateAutoMealPlan_plan write_all_traversal_exactly exactly_keeps)
next
  case False
  assume "keeps_21_slots (getMealPlan st)"
  with False show ?thesis by (simp add: generateAutoMealPlan_def)
qed

text \<open>
  C6. For every prior storage and every sequence of at most 21 recipes, the plan after
  \<open>generateAutoMealPlan\<close> (with the API key configured) has exactly the 21 slots, and read
  in traversal order (day-major, meal-minor) they hold the recipes in sequence order
  followed by empty slots only. The right-hand side does not mention the prior storage:
  nothing of the prior plan survives.
\<close>

theorem generateAutoMealPlan_fills_in_order:
  assumes "length rs \<le> 21"
  shows "exactly_21_slots (getMealPlan (generateAutoMealPlan True rs st))
       \<and> map (\<lambda>x. slot (getMealPlan (generateAutoMealPlan True rs st)) (fst x) (snd x)) traversal
           = map (\<lambda>r. Some (Some r)) rs @ replicate (21 - length rs) (Some None)"
proof -
  let ?p = "getMealPlan (generateAutoMealPlan True rs st)"
  have p: "?p = write_all (zip traversal rs) emptyPlan"
    by (rule generateAutoMealPlan_plan)
  have sub: "fst ` set (zip traversal rs) \<subseteq> set traversal"
    by (auto dest: set_zip_leftD)
  have ex: "exactly_21_slots ?p"
    unfolding p using exactly_emptyPlan sub by (rule write_all_exactly)
  have "map (\<lambda>x. slot ?p (fst x) (snd x)) traversal =
        map (\<lambda>r. Some (Some r)) (take (length traversal) rs)
          @ map (\<lambda>x. slot emptyPlan (fst x) (snd x)) (drop (length rs) traversal)"
    unfolding p using exactly_emptyPlan subset_refl traversal_distinct by (rule write_all_slots)
  also have "take (length traversal) rs = rs"
    using assms by (simp add: traversal_length)
  also have "map (\<lambda>x. slot emptyPlan (fst x) (snd x)) (drop (length rs) traversal) =
        replicate (21 - length rs) (Some None)"
    by (simp add: drop_map [symmetric] emptyPlan_slots)
  finally show ?thesis using ex by simp
qed

text \<open>
  Two recipes over a week that already held three meals: the first two slots are filled
  and the other 19 are empty.
\<close>

theorem generateAutoMealPlan_fills_in_order_witness:
  "length [pancakes, waffles] \<le> 21
   \<and> map (\<lambda>x. slot (getMealPlan (generateAutoMealPlan True [pancakes, waffles] flour_week)) (fst x) (snd x))
       traversal
     = [Some (Some pancakes), Some (Some waffles)] @ replicate 19 (Some None)"
  using generateAutoMealPlan_fills_in_order [of "[pancakes, waffles]" flour_week]
  by simp

subsection \<open>Plans reachable through the operations\<close>

lemma apply_operation_keeps:
  "keeps_21_slots (getMealPlan st) \<Longrightarrow> keeps_21_slots (getMealPlan (apply_operation op st))"
proof (cases op)
  case (SetMeal d m r)
  assume "keeps_21_slots (getMealPlan st)"
  then show ?thesis by (simp add: SetMeal getMealPlan_addMealToPlan write_slot_keeps)
next
  case (ClearMeal d m)
  assume "keeps_21_slots (getMealPlan st)"
  then show ?thesis by (simp add: ClearMeal getMealPlan_removeMealFromPlan write_slot_keeps)
next
  case ClearAll
  show ?thesis by (simp add: ClearAll clearMealPlan_def exactly_keeps exactly_emptyPlan)
next
  case (AutoGenerate c rs)
  assume "keeps_21_slots (getMealPlan st)"
  then show ?thesis by (simp add: AutoGenerate generateAutoMealPlan_keeps)
qed

lemma apply_operation_exactly:
  "exactly_21_slots (getMealPlan st) \<Longrightarrow> valid_mealType op \<Longrightarrow>
   exactly_21_slots (getMealPlan (apply_operation op st))"
proof (cases op)
  case (SetMeal d m r)
  assume "exactly_21_slots (getMealPlan st)" "valid_mealType op"
  then show ?thesis by (simp add: SetMeal getMealPlan_addMealToPlan write_slot_exactly)
next
  case (ClearMeal d m)
  assume "exactly_21_slots (getMealPlan st)" "valid_mealType op"
  then show ?thesis by (simp add: ClearMeal getMealPlan_removeMealFromPlan write_slot_exactly)
next
  case ClearAll
  show ?thesis by (simp add: ClearAll clearMealPlan_def exactly_emptyPlan)
next
  case (AutoGenerate c rs)
  assume "exactly_21_slots (getMealPlan st)"
  then show ?thesis by (simp add: AutoGenerate generateAutoMealPlan_exactly)
qed

lemma run_keeps:
  "keeps_21_slots (getMealPlan st) \<Longrightarrow> keeps_21_slots (getMealPlan (run ops st))"
  unfolding run_def by (induction ops arbitrary: st) (simp_all add: apply_operation_keeps)

lemma run_exactly:
  "exactly_21_slots (getMealPlan st) \<Longrightarrow> list_all valid_mealType ops \<Longrightarrow>
   exactly_21_slots (getMealPlan (run ops st))"
  unfolding run_def by (induction ops arbitrary: st) (simp_all add: apply_operation_exactly)

text \<open>
  C4, as amended. Every plan reachable from the empty storage through \<open>setMeal\<close>,
  \<open>clearMeal\<close>, \<open>clearAll\<close> and \<open>autoGenerate\<close> has the seven days as its keys and, in
  every day, the three meal slots: no operation removes one of the 21 slots or adds a day.
  When every \<open>setMeal\<close> and \<open>clearMeal\<close> names one of the three meal types, the plan has
  exactly the 21 slots. Every slot is empty or holds one recipe.
\<close>

theorem reachable_plan_slots:
  "keeps_21_slots (getMealPlan (run ops empty_storage))
   \<and> (list_all valid_mealType ops \<longrightarrow> exactly_21_slots (getMealPlan (run ops empty_storage)))"
proof -
  have e: "exactly_21_slots (getMealPlan empty_storage)"
    by (simp add: getMealPlan_empty_storage exactly_emptyPlan)
  then have "keeps_21_slots (getMealPlan empty_storage)"
    by (rule exactly_keeps)
  then have "keeps_21_slots (getMealPlan (run ops empty_storage))"
    by (rule run_keeps)
  moreover have "list_all valid_mealType ops \<longrightarrow> exactly_21_slots (getMealPlan (run ops empty_storage))"
    using e by (simp add: run_exactly)
  ultimately show ?thesis by simp
qed

text \<open>
  A run of four operations with valid meal types, one of them on an unknown day.
\<close>

theorem reachable_plan_slots_witness:
  "list_all valid_mealType
     [SetMeal ''tuesday'' ''lunch'' pancakes, ClearMeal ''funday'' ''dinner'', AutoGenerate True [pancakes], ClearAll]
   \<and> exactly_21_slots (getMealPlan (run
     [SetMeal ''tuesday'' ''lunch'' pancakes, ClearMeal ''funday'' ''dinner'', AutoGenerate True [pancakes], ClearAll]
     empty_storage))"
  using reachable_plan_slots
    [of "[SetMeal ''tuesday'' ''lunch'' pancakes, ClearMeal ''funday'' ''dinner'', AutoGenerate True [pancakes], ClearAll]"]
  by (simp add: mealTypes_def)

text \<open>
  C4 as stated fails: \<open>addMealToPlan('monday', 'snack', recipe)\<close> on the empty
  storage adds the slot monday snack, a 22nd slot, since the meal type is not checked.
\<close>

theorem setMeal_snack_counterexample:
  "\<not> exactly_21_slots (getMealPlan (run [SetMeal ''monday'' ''snack'' pancakes] empty_storage))
   \<and> slot (getMealPlan (run [SetMeal ''monday'' ''snack'' pancakes] empty_storage)) ''monday'' ''snack''
       = Some (Some pancakes)"
  by (simp add: run_def addMealToPlan_def getMealPlan_empty_storage get_property_def emptyPlan_def
        set_property_def create_property_def array_index_def is_digit_def
        exactly_21_slots_def mealTypes_def slot_def)

section \<open>Properties of the aggregator\<close>

subsection \<open>First occurrences\<close>

lemma set_first_seen [simp]: "set (first_seen xs) = set xs"
  by (induction xs) auto

lemma distinct_first_seen [simp]: "distinct (first_seen xs)"
  by (induction xs) auto

lemma first_seen_snoc:
  "first_seen (xs @ [x]) = (if x \<in> set xs then first_seen xs else first_seen xs @ [x])"
  by (induction xs) auto

subsection \<open>The map of merged entries\<close>

lemma add_recipe_fold: "add_recipe js_add r acc = fold (add_ingredient js_add) (recipe_ingredients r) acc"
  by (simp add: add_recipe_def recipe_ingredients_def split: option.splits)

lemma fold_meals:
  "fold (\<lambda>(day, mealType, recipe). add_recipe js_add recipe) meals acc =
     fold (add_ingredient js_add) (concat (map (\<lambda>meal. recipe_ingredients (snd (snd meal))) meals)) acc"
  by (induction meals arbitrary: acc) (auto simp: add_recipe_fold)

lemma generate_fold:
  "generateShoppingListFromMealPlan js_add st = map snd (fold (add_ingredient js_add) (plan_ingredients st) [])"
  by (simp add: generateShoppingListFromMealPlan_def plan_ingredients_def fold_meals)

lemma keys_add_ingredient:
  "map fst (add_ingredient js_add i m) =
     (if ing_name i \<in> set (map fst m) then map fst m else map fst m @ [ing_name i])"
proof (cases "map_of m (ing_name i)")
  case None
  then have "ing_name i \<notin> set (map fst m)" by (simp add: map_of_eq_None_iff)
  with None show ?thesis by (simp add: add_ingredient_def Let_def)
next
  case (Some e)
  then have "ing_name i \<in> set (map fst m)"
    by (metis map_of_eq_None_iff option.distinct(1) set_map)
  with Some show ?thesis by (simp add: add_ingredient_def Let_def AList.update_keys)
qed

lemma keys_aggregate: "map fst (fold (add_ingredient js_add) ings []) = first_seen (map ing_name ings)"
proof (induction ings rule: rev_induct)
  case Nil
  show ?case by simp
next
  case (snoc i ings)
  then show ?case by (simp add: keys_add_ingredient first_seen_snoc)
qed

lemma named_snoc: "named n (ings @ [i]) = (if ing_name i = n then named n ings @ [i] else named n ings)"
  by (simp add: named_def)

lemma named_empty: "named n ings = [] \<longleftrightarrow> n \<notin> set (map ing_name ings)"
  by (auto simp: named_def filter_empty_conv)

lemma name_merged_entry [simp]: "name (merged_entry js_add n ings) = n"
  by (simp add: merged_entry_def split: list.splits)

lemma merged_entry_other: "ing_name i \<noteq> n \<Longrightarrow> merged_entry js_add n (ings @ [i]) = merged_entry js_add n ings"
  by (simp add: merged_entry_def named_snoc)

lemma merged_entry_first: "named (ing_name i) ings = [] \<Longrightarrow>
  merged_entry js_add (ing_name i) (ings @ [i]) =
    \<lparr>name = ing_name i, category = categorizeIngredient (Some (aisle_or_name i)),
     amount = amount_or_0 i, unit_of = unit_or_empty i, checked = False\<rparr>"
  by (simp add: merged_entry_def named_snoc)

lemma merged_entry_again: "named (ing_name i) ings \<noteq> [] \<Longrightarrow>
  merged_entry js_add (ing_name i) (ings @ [i]) =
    (merged_entry js_add (ing_name i) ings)
      \<lparr>amount := js_add (amount (merged_entry js_add (ing_name i) ings)) (amount_or_0 i)\<rparr>"
  by (cases "named (ing_name i) ings") (simp_all add: merged_entry_def named_snoc)

lemma lookup_aggregate:
  "map_of (fold (add_ingredient js_add) ings []) n =
     (if n \<in> set (map ing_name ings) then Some (merged_entry js_add n ings) else None)"
proof (induction ings arbitrary: n rule: rev_induct)
  case Nil
  show ?case by simp
next
  case (snoc i ings)
  let ?m = "fold (add_ingredient js_add) ings []"
  show ?case
  proof (cases "ing_name i \<in> set (map ing_name ings)")
    case True
    then have ne: "named (ing_name i) ings \<noteq> []" by (simp add: named_empty)
    have look: "map_of ?m (ing_name i) = Some (merged_entry js_add (ing_name i) ings)"
      using snoc.IH [of "ing_name i"] True by simp
    have "map_of (add_ingredient js_add i ?m) n =
          ((map_of ?m)(ing_name i \<mapsto> (merged_entry js_add (ing_name i) ings)
              \<lparr>amount := js_add (amount (merged_entry js_add (ing_name i) ings)) (amount_or_0 i)\<rparr>)) n"
      using look by (simp add: add_ingredient_def Let_def AList.update_conv')
    then show ?thesis
      using snoc.IH [of n] True ne
      by (auto simp: merged_entry_again merged_entry_other)
  next
    case False
    then have e: "named (ing_name i) ings = []" by (simp add: named_empty)
    have look: "map_of ?m (ing_name i) = None"
      using snoc.IH [of "ing_name i"] False by simp
    have "map_of (add_ingredient js_add i ?m) n =
          ((map_of ?m)(ing_name i \<mapsto> \<lparr>name = ing_name i, category = categorizeIngredient (Some (aisle_or_name i)),
              amount = amount_or_0 i, unit_of = unit_or_empty i, checked = False\<rparr>)) n"
      using look by (auto simp: add_ingredient_def Let_def map_add_def split: option.splits)
    then show ?thesis
      using snoc.IH [of n] False e
      by (auto simp: merged_entry_first merged_entry_other)
  qed
qed

lemma alist_by_keys:
  "distinct (map fst al) \<Longrightarrow> map snd al = map (\<lambda>k. the (map_of al k)) (map fst al)"
proof (induction al)
  case Nil
  show ?case by simp
next
  case (Cons p al)
  have "map (\<lambda>k. the (map_of (p # al) k)) (map fst al) = map (\<lambda>k. the (map_of al k)) (map fst al)"
  proof (rule map_cong [OF refl])
    fix k assume "k \<in> set (map fst al)"
    with Cons.prems have "k \<noteq> fst p" by (auto simp: image_iff)
    then show "the (map_of (p # al) k) = the (map_of al k)" by (cases p) simp
  qed
  with Cons show ?case by (cases p) simp
qed

lemma aggregate_entries:
  "map snd (fold (add_ingredient js_add) ings []) =
     map (\<lambda>n. merged_entry js_add n ings) (first_seen (map ing_name ings))"
proof -
  let ?m = "fold (add_ingredient js_add) ings []"
  have d: "distinct (map fst ?m)" by (simp add: keys_aggregate)
  have "map snd ?m = map (\<lambda>k. the (map_of ?m k)) (first_seen (map ing_name ings))"
    using alist_by_keys [OF d] by (simp add: keys_aggregate)
  also have "\<dots> = map (\<lambda>n. merged_entry js_add n ings) (first_seen (map ing_name ings))"
    by (rule map_cong [OF refl]) (simp add: lookup_aggregate)
  finally show ?thesis .
qed

lemma generate_entries:
  "generateShoppingListFromMealPlan js_add st =
     map (\<lambda>n. merged_entry js_add n (plan_ingredients st)) (first_seen (map ing_name (plan_ingredients st)))"
  by (simp add: generate_fold aggregate_entries)

lemma generate_names:
  "map name (generateShoppingListFromMealPlan js_add st) = first_seen (map ing_name (plan_ingredients st))"
  by (simp add: generate_entries comp_def)

subsection \<open>Slots in the key order of the stored plan\<close>

lemma exactly_day_slots:
  assumes "exactly_21_slots plan" "d \<in> set days"
  obtains slots where "map_of plan d = Some slots" "map fst slots = mealTypes"
proof -
  from assms obtain slots where s: "map_of plan d = Some slots"
    using exactly_own_day by blast
  from assms(1) have "list_all (\<lambda>slots. map fst slots = mealTypes) (map snd plan)"
    by (simp add: exactly_21_slots_def)
  then have "map fst slots = mealTypes"
    using s by (rule map_of_list_all)
  with s that show thesis by blast
qed

lemma meals_of_day_ingredients:
  "concat (map (\<lambda>meal. recipe_ingredients (snd (snd meal))) (meals_of_day d slots)) =
     concat (map (\<lambda>m. slot_ingredients (map_of slots m)) (map fst slots))"
proof -
  have "concat (map (\<lambda>meal. recipe_ingredients (snd (snd meal)))
          (concat (map (\<lambda>mealType. case map_of slots mealType of
                                Some (Some meal) \<Rightarrow> [(d, mealType, meal)]
                              | _ \<Rightarrow> []) ks))) =
        concat (map (\<lambda>m. slot_ingredients (map_of slots m)) ks)" for ks
    by (induction ks) (auto simp: slot_ingredients_def split: option.splits)
  from this [of "map fst slots"] show ?thesis by (simp only: meals_of_day_def)
qed

lemma plan_ingredients_stored_slots:
  "plan_ingredients st =
     concat (map (\<lambda>x. slot_ingredients (slot (getMealPlan st) (fst x) (snd x)))
       (stored_slots (getMealPlan st)))"
proof -
  let ?p = "getMealPlan st"
  have "concat (map (\<lambda>meal. recipe_ingredients (snd (snd meal)))
          (concat (map (\<lambda>day. case map_of ?p day of Some slots \<Rightarrow> meals_of_day day slots | None \<Rightarrow> []) ks))) =
        concat (map (\<lambda>x. slot_ingredients (slot ?p (fst x) (snd x)))
          (concat (map (\<lambda>day. map (\<lambda>mealType. (day, mealType))
             (case map_of ?p day of None \<Rightarrow> [] | Some slots \<Rightarrow> map fst slots)) ks)))" for ks
    by (induction ks) (auto simp: meals_of_day_ingredients slot_def comp_def split: option.splits)
  from this [of "map fst ?p"] show ?thesis
    by (simp only: plan_ingredients_def getAllMealsFromPlan_def stored_slots_def Let_def)
qed

lemma stored_slots_exact:
  assumes "exactly_21_slots plan"
  shows "stored_slots plan = traversal"
proof -
  have k: "map fst plan = days"
    using assms by (simp add: exactly_21_slots_def)
  have "(case map_of plan d of None \<Rightarrow> [] | Some slots \<Rightarrow> map fst slots) = mealTypes"
    if "d \<in> set days" for d
  proof -
    from assms that obtain slots where "map_of plan d = Some slots" "map fst slots = mealTypes"
      by (rule exactly_day_slots)
    then show ?thesis by simp
  qed
  then show ?thesis
    unfolding stored_slots_def traversal_def k
    by (intro arg_cong [where f = concat] map_cong refl) simp
qed

subsection \<open>Plans with exactly the 21 slots\<close>

lemma meals_of_exact_day:
  assumes "exactly_21_slots plan" "d \<in> set days"
  shows "(case map_of plan d of Some slots \<Rightarrow> meals_of_day d slots | None \<Rightarrow> [])
         = concat (map (slot_meal plan d) mealTypes)"
proof -
  from assms obtain slots where s: "map_of plan d = Some slots" "map fst slots = mealTypes"
    by (rule exactly_day_slots)
  have "meals_of_day d slots = concat (map (slot_meal plan d) mealTypes)"
    unfolding meals_of_day_def s(2)
    by (rule arg_cong [where f = concat], rule map_cong [OF refl])
       (simp add: slot_meal_def slot_def s(1))
  with s(1) show ?thesis by simp
qed

lemma getAllMealsFromPlan_exact:
  assumes "exactly_21_slots (getMealPlan st)"
  shows "getAllMealsFromPlan st =
         concat (map (\<lambda>d. concat (map (slot_meal (getMealPlan st) d) mealTypes)) days)"
proof -
  have k: "map fst (getMealPlan st) = days"
    using assms by (simp add: exactly_21_slots_def)
  show ?thesis
    unfolding getAllMealsFromPlan_def Let_def k
    by (rule arg_cong [where f = concat], rule map_cong [OF refl])
       (rule meals_of_exact_day [OF assms])
qed

lemma slot_meal_ingredients:
  "concat (map (\<lambda>meal. recipe_ingredients (snd (snd meal))) (slot_meal plan d m))
     = slot_ingredients (slot plan d m)"
  by (simp add: slot_meal_def slot_ingredients_def split: option.splits)

lemma plan_ingredients_traversal:
  assumes "exactly_21_slots (getMealPlan st)"
  shows "plan_ingredients st =
         concat (map (\<lambda>x. slot_ingredients (slot (getMealPlan st) (fst x) (snd x))) traversal)"
  unfolding plan_ingredients_def getAllMealsFromPlan_exact [OF assms]
  by (simp add: traversal_def days_def mealTypes_def slot_meal_ingredients)

subsection \<open>The sample week\<close>

lemma flour_week_plan:
  "getMealPlan flour_week =
     [(''monday'', [(''breakfast'', None), (''lunch'', Some pancakes), (''dinner'', Some waffles)]),
      (''tuesday'', [(''breakfast'', None), (''lunch'', None), (''dinner'', None)]),
      (''wednesday'', [(''breakfast'', None), (''lunch'', None), (''dinner'', None)]),
      (''thursday'', [(''breakfast'', Some crepes), (''lunch'', None), (''dinner'', None)]),
      (''friday'', [(''breakfast'', None), (''lunch'', None), (''dinner'', None)]),
      (''saturday'', [(''breakfast'', None), (''lunch'', None), (''dinner'', None)]),
      (''sunday'', [(''breakfast'', None), (''lunch'', None), (''dinner'', None)])]"
  by (simp add: flour_week_def run_def addMealToPlan_def getMealPlan_empty_storage get_property_def
        emptyPlan_def set_property_def)

lemma flour_week_meals:
  "getAllMealsFromPlan flour_week =
     [(''monday'', ''lunch'', pancakes), (''monday'', ''dinner'', waffles), (''thursday'', ''breakfast'', crepes)]"
  by (simp add: getAllMealsFromPlan_def flour_week_plan meals_of_day_def)

lemma flour_week_list:
  assumes "js_add (Finite 200) (Finite 150) = Finite 350" "js_add (Finite 350) (Finite 0) = Finite 350"
  shows "generateShoppingListFromMealPlan js_add flour_week =
     [\<lparr>name = ''flour'', category = ''grains'', amount = Finite 350, unit_of = ''g'', checked = False\<rparr>,
      \<lparr>name = ''Flour'', category = ''other'', amount = Finite 100, unit_of = [], checked = False\<rparr>]"
  using assms
  by (simp add: generateShoppingListFromMealPlan_def flour_week_meals add_recipe_def pancakes_def
        waffles_def crepes_def add_ingredient_def amount_or_0_def truthy_def unit_or_empty_def
        aisle_or_name_def categorizeIngredient_def toLowerCase_def toLowerCase_char_def Let_def)

lemma snack_week_plan:
  "getMealPlan snack_week =
     [(''monday'', [(''breakfast'', None), (''lunch'', None), (''dinner'', None), (''snack'', Some pancakes)]),
      (''tuesday'', [(''breakfast'', None), (''lunch'', None), (''dinner'', None)]),
      (''wednesday'', [(''breakfast'', None), (''lunch'', None), (''dinner'', None)]),
      (''thursday'', [(''breakfast'', None), (''lunch'', None), (''dinner'', None)]),
      (''friday'', [(''breakfast'', None), (''lunch'', None), (''dinner'', None)]),
      (''saturday'', [(''breakfast'', None), (''lunch'', None), (''dinner'', None)]),
      (''sunday'', [(''breakfast'', None), (''lunch'', None), (''dinner'', None)])]"
  by (simp add: snack_week_def run_def addMealToPlan_def getMealPlan_empty_storage get_property_def
        emptyPlan_def set_property_def create_property_def array_index_def is_digit_def)

subsection \<open>Merging and order\<close>

text \<open>
  C1. For every stored plan and whatever the addition of numbers does, the list
  \<open>generateShoppingListFromMealPlan\<close> returns has exactly one entry for every ingredient
  name of the plan, names compared exactly (case-sensitively). The amount of the entry is
  the amount of the first ingredient with that name, to which the amounts of the later
  ones are added in their order, an absent amount counting 0; its unit and its category are
  those of the first ingredient with that name; it is not checked. For the sample week,
  under every addition that gives \<open>200 + 150 = 350\<close> and \<open>350 + 0 = 350\<close>, as the addition
  of doubles does, \<open>flour\<close> is one entry with the amount 350 and \<open>Flour\<close> is a separate
  entry.
\<close>

theorem generate_merges_by_exact_name:
  "(let out = generateShoppingListFromMealPlan js_add st; ings = plan_ingredients st
    in distinct (map name out)
     \<and> set (map name out) = set (map ing_name ings)
     \<and> (\<forall>e \<in> set out. e = merged_entry js_add (name e) ings))
   \<and> (js_add (Finite 200) (Finite 150) = Finite 350 \<and> js_add (Finite 350) (Finite 0) = Finite 350 \<longrightarrow>
       generateShoppingListFromMealPlan js_add flour_week =
         [\<lparr>name = ''flour'', category = ''grains'', amount = Finite 350, unit_of = ''g'', checked = False\<rparr>,
          \<lparr>name = ''Flour'', category = ''other'', amount = Finite 100, unit_of = [], checked = False\<rparr>])"
proof -
  let ?out = "generateShoppingListFromMealPlan js_add st"
  let ?ings = "plan_ingredients st"
  have n: "map name ?out = first_seen (map ing_name ?ings)"
    by (rule generate_names)
  have d: "distinct (map name ?out)"
    by (simp only: n distinct_first_seen)
  have s: "set (map name ?out) = set (map ing_name ?ings)"
    by (simp only: n set_first_seen)
  have e: "\<forall>e \<in> set ?out. e = merged_entry js_add (name e) ?ings"
    by (auto simp: generate_entries)
  have general: "let out = ?out; ings = ?ings
    in distinct (map name out)
     \<and> set (map name out) = set (map ing_name ings)
     \<and> (\<forall>e \<in> set out. e = merged_entry js_add (name e) ings)"
    unfolding Let_def using d s e by blast
  have sample: "js_add (Finite 200) (Finite 150) = Finite 350 \<and> js_add (Finite 350) (Finite 0) = Finite 350 \<longrightarrow>
       generateShoppingListFromMealPlan js_add flour_week =
         [\<lparr>name = ''flour'', category = ''grains'', amount = Finite 350, unit_of = ''g'', checked = False\<rparr>,
          \<lparr>name = ''Flour'', category = ''other'', amount = Finite 100, unit_of = [], checked = False\<rparr>]"
    using flour_week_list [of js_add] by blast
  from general sample show ?thesis by (rule conjI)
qed

text \<open>
  The sample week under the addition that is exact on finite numbers: the entry of
  \<open>flour\<close> is \<open>(200 + 150) + 0\<close>, accumulated from the left.
\<close>

theorem generate_merges_by_exact_name_witness:
  "exact_plus (Finite 200) (Finite 150) = Finite 350
   \<and> exact_plus (Finite 350) (Finite 0) = Finite 350
   \<and> generateShoppingListFromMealPlan exact_plus flour_week =
     [\<lparr>name = ''flour'', category = ''grains'', amount = Finite 350, unit_of = ''g'', checked = False\<rparr>,
      \<lparr>name = ''Flour'', category = ''other'', amount = Finite 100, unit_of = [], checked = False\<rparr>]
   \<and> amount (merged_entry exact_plus ''flour'' (plan_ingredients flour_week))
       = exact_plus (exact_plus (Finite 200) (Finite 150)) (Finite 0)"
proof -
  have l: "generateShoppingListFromMealPlan exact_plus flour_week =
     [\<lparr>name = ''flour'', category = ''grains'', amount = Finite 350, unit_of = ''g'', checked = False\<rparr>,
      \<lparr>name = ''Flour'', category = ''other'', amount = Finite 100, unit_of = [], checked = False\<rparr>]"
    using generate_merges_by_exact_name [of exact_plus flour_week] by simp
  have "\<lparr>name = ''flour'', category = ''grains'', amount = Finite 350, unit_of = ''g'', checked = False\<rparr>
        = merged_entry exact_plus ''flour'' (plan_ingredients flour_week)"
    using generate_merges_by_exact_name [of exact_plus flour_week] by (simp add: l Let_def)
  from this [symmetric] l show ?thesis by simp
qed

text \<open>
  C5, as amended. For every stored plan, the names of the returned entries are the
  ingredient names in the order of their first occurrence over the slots in the key order
  of the stored plan, an empty slot and a recipe without an ingredient list contributing
  nothing, the ingredients of a recipe in their listed order. For a plan with exactly the
  21 slots that key order is the traversal: day-major (monday to sunday) and meal-minor
  (breakfast, lunch, dinner).
\<close>

theorem generate_traversal_order:
  "map name (generateShoppingListFromMealPlan js_add st) =
     first_seen (map ing_name
       (concat (map (\<lambda>x. slot_ingredients (slot (getMealPlan st) (fst x) (snd x)))
          (stored_slots (getMealPlan st)))))
   \<and> (exactly_21_slots (getMealPlan st) \<longrightarrow>
        stored_slots (getMealPlan st) = traversal
      \<and> map name (generateShoppingListFromMealPlan js_add st) =
          first_seen (map ing_name
            (concat (map (\<lambda>x. slot_ingredients (slot (getMealPlan st) (fst x) (snd x))) traversal))))"
proof -
  have g: "map name (generateShoppingListFromMealPlan js_add st) =
     first_seen (map ing_name
       (concat (map (\<lambda>x. slot_ingredients (slot (getMealPlan st) (fst x) (snd x)))
          (stored_slots (getMealPlan st)))))"
    using plan_ingredients_stored_slots [of st] by (simp only: generate_names)
  have "stored_slots (getMealPlan st) = traversal
      \<and> map name (generateShoppingListFromMealPlan js_add st) =
          first_seen (map ing_name
            (concat (map (\<lambda>x. slot_ingredients (slot (getMealPlan st) (fst x) (snd x))) traversal)))"
    if "exactly_21_slots (getMealPlan st)"
    using g stored_slots_exact [OF that] by simp
  with g show ?thesis by blast
qed

text \<open>
  The sample week has exactly the 21 slots, and its names come out in traversal order.
\<close>

theorem generate_traversal_order_witness:
  "exactly_21_slots (getMealPlan flour_week)
   \<and> stored_slots (getMealPlan flour_week) = traversal
   \<and> map name (generateShoppingListFromMealPlan exact_plus flour_week) = [''flour'', ''Flour'']"
proof -
  have e: "exactly_21_slots (getMealPlan flour_week)"
    by (simp add: flour_week_plan exactly_21_slots_def days_def mealTypes_def)
  show ?thesis
    using e generate_traversal_order [of exact_plus flour_week]
    by (simp add: flour_week_plan traversal_def days_def mealTypes_def slot_def slot_ingredients_def
          recipe_ingredients_def pancakes_def waffles_def crepes_def)
qed

text \<open>
  C5 as stated fails: the week with the slot monday snack yields the flour of that slot,
  which the walk over the 21 fixed slots does not meet.
\<close>

theorem generate_snack_order_counterexample:
  "map name (generateShoppingListFromMealPlan exact_plus snack_week) = [''flour'']
   \<and> first_seen (map ing_name
        (concat (map (\<lambda>x. slot_ingredients (slot (getMealPlan snack_week) (fst x) (snd x))) traversal)))
      = []"
proof -
  have "getAllMealsFromPlan snack_week = [(''monday'', ''snack'', pancakes)]"
    by (simp add: getAllMealsFromPlan_def snack_week_plan meals_of_day_def)
  then have "map name (generateShoppingListFromMealPlan exact_plus snack_week) = [''flour'']"
    by (simp add: generateShoppingListFromMealPlan_def add_recipe_def pancakes_def add_ingredient_def
          Let_def)
  moreover have "first_seen (map ing_name
        (concat (map (\<lambda>x. slot_ingredients (slot (getMealPlan snack_week) (fst x) (snd x))) traversal)))
      = []"
    by (simp add: snack_week_plan traversal_def days_def mealTypes_def slot_def slot_ingredients_def)
  ultimately show ?thesis by simp
qed

section \<open>Properties of the shopping list\<close>

subsection \<open>Adding\<close>

lemma getShoppingList_saved [simp]: "getShoppingList (st\<lparr>SHOPPING_LIST := Some l\<rparr>) = l"
  by (simp add: getShoppingList_def)

lemma getShoppingList_empty_storage: "getShoppingList empty_storage = []"
  by (simp add: getShoppingList_def empty_storage_def)

lemma getShoppingList_cleared [simp]: "getShoppingList (clearShoppingList st) = []"
  by (simp add: clearShoppingList_def)

lemma addToShoppingList_list:
  "getShoppingList (snd (addToShoppingList t1 t2 item st)) =
     (if already_listed item (getShoppingList st) then getShoppingList st
      else getShoppingList st @ [stored_item (t1, t2) item])"
  by (simp add: addToShoppingList_def already_listed_def stored_item_def Let_def)

lemma addToShoppingList_result:
  "fst (addToShoppingList t1 t2 item st) = (\<not> already_listed item (getShoppingList st))"
  by (simp add: addToShoppingList_def already_listed_def Let_def)

lemma addToShoppingList_duplicate:
  "already_listed item (getShoppingList st) \<Longrightarrow> addToShoppingList t1 t2 item st = (False, st)"
  by (simp add: addToShoppingList_def already_listed_def Let_def)

lemma addToShoppingList_plan:
  "MEAL_PLAN (snd (addToShoppingList t1 t2 item st)) = MEAL_PLAN st"
  by (simp add: addToShoppingList_def Let_def)

lemma addToShoppingList_cong:
  "name a = name b \<Longrightarrow> category a = category b \<Longrightarrow>
   addToShoppingList t1 t2 a st = addToShoppingList t1 t2 b st"
  by (simp add: addToShoppingList_def Let_def)

lemma already_listed_iff:
  "already_listed item list \<longleftrightarrow> (\<exists>i \<in> set list. toLowerCase (item_name i) = toLowerCase (name item))"
  by (simp add: already_listed_def list_ex_iff)

lemma milk_list_items:
  "getShoppingList milk_list =
     [\<lparr>item_id = 1000, item_name = ''Milk'', item_category = ''dairy'', item_checked = False, addedAt = 1000\<rparr>]"
  by (simp add: milk_list_def addToShoppingList_def getShoppingList_def empty_storage_def)

lemma cafe_list_items:
  "getShoppingList cafe_list =
     [\<lparr>item_id = 1000, item_name = cafe_capitals, item_category = ''other'', item_checked = False, addedAt = 1000\<rparr>]"
  by (simp add: cafe_list_def addToShoppingList_def getShoppingList_def empty_storage_def)

lemma lower_milk: "toLowerCase ''Milk'' = ''milk''" "toLowerCase ''milk'' = ''milk''"
  "toLowerCase ''Bread'' = ''bread''" "toLowerCase ''flour'' = ''flour''" "toLowerCase ''Flour'' = ''flour''"
  by (simp_all add: toLowerCase_def toLowerCase_char_def)

text \<open>
  C9, as amended. For every storage: \<open>addToShoppingList\<close> with a name that equals the
  name of a stored item up to case returns \<open>false\<close> and leaves the storage as it is;
  otherwise it returns \<open>true\<close> and appends exactly one item with the given name, the
  given category (\<open>other\<close> when the category is empty), \<open>checked = false\<close>, and the two
  clock readings as \<open>id\<close> and \<open>addedAt\<close>. The id is new to the list when the clock
  reading is greater than every stored id.
\<close>

theorem addToShoppingList_guard:
  "let list = getShoppingList st; r = addToShoppingList now_id now_added item st
   in if already_listed item list then r = (False, st)
      else fst r
         \<and> getShoppingList (snd r) = list @ [stored_item (now_id, now_added) item]
         \<and> MEAL_PLAN (snd r) = MEAL_PLAN st
         \<and> ((\<forall>i \<in> set list. item_id i < now_id) \<longrightarrow>
              item_id (stored_item (now_id, now_added) item) \<notin> item_id ` set list)"
  by (auto simp: Let_def addToShoppingList_duplicate addToShoppingList_list addToShoppingList_result
        addToShoppingList_plan stored_item_def)

text \<open>
  \<open>Milk\<close> is stored; adding \<open>milk\<close> is refused and the list stays at length 1;
  adding \<open>Bread\<close> at a later clock reading appends it. With the accented word in capitals
  stored, adding it in small letters is refused too.
\<close>

theorem addToShoppingList_guard_witness:
  "getShoppingList (snd (addToShoppingList 2000 2000 \<lparr>name = ''milk'', category = ''dairy''\<rparr> milk_list))
     = getShoppingList milk_list
   \<and> length (getShoppingList milk_list) = 1
   \<and> fst (addToShoppingList 2000 2000 \<lparr>name = ''milk'', category = ''dairy''\<rparr> milk_list) = False
   \<and> list_all (\<lambda>i. item_id i < 2000) (getShoppingList milk_list)
   \<and> getShoppingList (snd (addToShoppingList 2000 2001 \<lparr>name = ''Bread'', category = ''grains''\<rparr> milk_list))
     = [\<lparr>item_id = 1000, item_name = ''Milk'', item_category = ''dairy'', item_checked = False, addedAt = 1000\<rparr>,
        \<lparr>item_id = 2000, item_name = ''Bread'', item_category = ''grains'', item_checked = False, addedAt = 2001\<rparr>]
   \<and> addToShoppingList 2000 2000 \<lparr>name = cafe_small, category = ''other''\<rparr> cafe_list = (False, cafe_list)"
  using addToShoppingList_guard [of milk_list 2000 2000 "\<lparr>name = ''milk'', category = ''dairy''\<rparr>"]
    addToShoppingList_guard [of milk_list 2000 2001 "\<lparr>name = ''Bread'', category = ''grains''\<rparr>"]
    addToShoppingList_guard [of cafe_list 2000 2000 "\<lparr>name = cafe_small, category = ''other''\<rparr>"]
  by (simp add: milk_list_items cafe_list_items already_listed_def lower_milk toLowerCase_examples
        stored_item_def Let_def)

text \<open>
  C9 as stated fails: added at the clock reading 1000 with an empty category, \<open>Bread\<close>
  gets the id 1000 that \<open>Milk\<close> already has, and the category \<open>other\<close>.
\<close>

theorem addToShoppingList_same_id_counterexample:
  "getShoppingList (snd (addToShoppingList 1000 1000 \<lparr>name = ''Bread'', category = ''''\<rparr> milk_list)) =
     [\<lparr>item_id = 1000, item_name = ''Milk'', item_category = ''dairy'', item_checked = False, addedAt = 1000\<rparr>,
      \<lparr>item_id = 1000, item_name = ''Bread'', item_category = ''other'', item_checked = False, addedAt = 1000\<rparr>]
   \<and> 1000 \<in> item_id ` set (getShoppingList milk_list)"
  by (simp add: addToShoppingList_list milk_list_items already_listed_def lower_milk stored_item_def)

subsection \<open>Removing and toggling\<close>

lemma first_with_id_bound: "first_with_id x list < length list \<longleftrightarrow> x \<in> item_id ` set list"
  by (induction list) auto

lemma first_with_id_first: "j < first_with_id x list \<Longrightarrow> j < length list \<Longrightarrow> item_id (list ! j) \<noteq> x"
  by (induction list arbitrary: j) (auto simp: nth_Cons split: nat.splits if_splits)

lemma first_with_id_hit: "first_with_id x list < length list \<Longrightarrow> item_id (list ! first_with_id x list) = x"
  by (induction list) auto

lemma first_with_id_append:
  "x \<notin> item_id ` set list \<Longrightarrow> item_id y = x \<Longrightarrow> first_with_id x (list @ y # ys) = length list"
  by (induction list) auto

lemma toggle_first_update:
  "toggle_first x list =
     (if first_with_id x list < length list
      then list[first_with_id x list := flip_checked (list ! first_with_id x list)]
      else list)"
  by (induction list) (auto simp: flip_checked_def)

lemma find_id_None: "find (\<lambda>i. item_id i = x) list = None \<longleftrightarrow> \<not> first_with_id x list < length list"
  by (induction list) auto

lemma toggleShoppingItem_first:
  "toggleShoppingItem x st =
     (let list = getShoppingList st; k = first_with_id x list
      in if k < length list then (True, st\<lparr>SHOPPING_LIST := Some (list[k := flip_checked (list ! k)])\<rparr>)
         else (False, st))"
proof (cases "find (\<lambda>i. item_id i = x) (getShoppingList st)")
  case None
  then show ?thesis
    using find_id_None [of x "getShoppingList st"] by (simp add: toggleShoppingItem_def Let_def)
next
  case (Some i)
  then have "first_with_id x (getShoppingList st) < length (getShoppingList st)"
    using find_id_None [of x "getShoppingList st"] by simp
  with Some show ?thesis
    by (simp add: toggleShoppingItem_def Let_def toggle_first_update)
qed

lemma removeFromShoppingList_list:
  "getShoppingList (removeFromShoppingList x st) = filter (\<lambda>i. item_id i \<noteq> x) (getShoppingList st)"
  by (simp add: removeFromShoppingList_def Let_def)

lemma two_adds_list:
  assumes "\<not> already_listed a (getShoppingList st)" "\<not> already_listed b (getShoppingList st)"
    "toLowerCase (name a) \<noteq> toLowerCase (name b)"
  shows "getShoppingList (snd (addToShoppingList t t2 b (snd (addToShoppingList t t1 a st)))) =
         getShoppingList st @ [stored_item (t, t1) a, stored_item (t, t2) b]"
proof -
  let ?st1 = "snd (addToShoppingList t t1 a st)"
  have l1: "getShoppingList ?st1 = getShoppingList st @ [stored_item (t, t1) a]"
    using assms(1) by (simp add: addToShoppingList_list)
  have "\<not> already_listed b (getShoppingList ?st1)"
    using assms(2,3) by (auto simp: l1 already_listed_iff stored_item_def)
  then show ?thesis using assms(1) by (simp add: addToShoppingList_list)
qed

text \<open>
  C10. For every storage and id, \<open>removeFromShoppingList\<close> leaves exactly the items
  whose id differs from the argument, in their order, and \<open>toggleShoppingItem\<close> flips the
  \<open>checked\<close> flag of the first item with the id and of no other (and returns \<open>false\<close>
  when there is none). Two items added at one clock reading \<open>t\<close> that no stored item has
  as its id share the id \<open>t\<close>: one \<open>removeFromShoppingList(t)\<close> deletes both, and
  \<open>toggleShoppingItem(t)\<close> flips the first of them only.
\<close>

theorem remove_every_match_toggle_first:
  "getShoppingList (removeFromShoppingList itemId st)
     = filter (\<lambda>i. item_id i \<noteq> itemId) (getShoppingList st)
   \<and> toggleShoppingItem itemId st =
       (let list = getShoppingList st; k = first_with_id itemId list
        in if k < length list then (True, st\<lparr>SHOPPING_LIST := Some (list[k := flip_checked (list ! k)])\<rparr>)
           else (False, st))
   \<and> (\<not> already_listed a (getShoppingList st) \<and> \<not> already_listed b (getShoppingList st)
        \<and> toLowerCase (name a) \<noteq> toLowerCase (name b) \<and> t \<notin> item_id ` set (getShoppingList st) \<longrightarrow>
       (let st2 = snd (addToShoppingList t t2 b (snd (addToShoppingList t t1 a st)))
        in getShoppingList st2 = getShoppingList st @ [stored_item (t, t1) a, stored_item (t, t2) b]
         \<and> item_id (stored_item (t, t1) a) = item_id (stored_item (t, t2) b)
         \<and> getShoppingList (removeFromShoppingList t st2) = getShoppingList st
         \<and> getShoppingList (snd (toggleShoppingItem t st2))
             = getShoppingList st @ [flip_checked (stored_item (t, t1) a), stored_item (t, t2) b]))"
proof -
  have same_ms: "getShoppingList (removeFromShoppingList t st2) = getShoppingList st
       \<and> getShoppingList (snd (toggleShoppingItem t st2))
             = getShoppingList st @ [flip_checked (stored_item (t, t1) a), stored_item (t, t2) b]"
    if l2: "getShoppingList st2 = getShoppingList st @ [stored_item (t, t1) a, stored_item (t, t2) b]"
      and new: "t \<notin> item_id ` set (getShoppingList st)"
    for st2
  proof -
    have keep: "filter (\<lambda>i. item_id i \<noteq> t) (getShoppingList st) = getShoppingList st"
      using new by (auto simp: filter_id_conv)
    have k: "first_with_id t (getShoppingList st @ [stored_item (t, t1) a, stored_item (t, t2) b])
              = length (getShoppingList st)"
      using new by (simp add: first_with_id_append stored_item_def)
    have r: "getShoppingList (removeFromShoppingList t st2) = getShoppingList st"
      by (simp add: removeFromShoppingList_list l2 keep stored_item_def)
    have "getShoppingList (snd (toggleShoppingItem t st2))
             = getShoppingList st @ [flip_checked (stored_item (t, t1) a), stored_item (t, t2) b]"
      by (simp add: toggleShoppingItem_first l2 k Let_def)
    with r show ?thesis by simp
  qed
  have third: "\<not> already_listed a (getShoppingList st) \<and> \<not> already_listed b (getShoppingList st)
        \<and> toLowerCase (name a) \<noteq> toLowerCase (name b) \<and> t \<notin> item_id ` set (getShoppingList st) \<longrightarrow>
       (let st2 = snd (addToShoppingList t t2 b (snd (addToShoppingList t t1 a st)))
        in getShoppingList st2 = getShoppingList st @ [stored_item (t, t1) a, stored_item (t, t2) b]
         \<and> item_id (stored_item (t, t1) a) = item_id (stored_item (t, t2) b)
         \<and> getShoppingList (removeFromShoppingList t st2) = getShoppingList st
         \<and> getShoppingList (snd (toggleShoppingItem t st2))
             = getShoppingList st @ [flip_checked (stored_item (t, t1) a), stored_item (t, t2) b])"
  proof (intro impI, elim conjE)
    assume h: "\<not> already_listed a (getShoppingList st)" "\<not> already_listed b (getShoppingList st)"
      "toLowerCase (name a) \<noteq> toLowerCase (name b)" "t \<notin> item_id ` set (getShoppingList st)"
    let ?st2 = "snd (addToShoppingList t t2 b (snd (addToShoppingList t t1 a st)))"
    have l2: "getShoppingList ?st2 = getShoppingList st @ [stored_item (t, t1) a, stored_item (t, t2) b]"
      using h(1,2,3) by (rule two_adds_list)
    have ids: "item_id (stored_item (t, t1) a) = item_id (stored_item (t, t2) b)"
      by (simp add: stored_item_def)
    from same_ms [OF l2 h(4)] l2 ids
    show "let st2 = ?st2
        in getShoppingList st2 = getShoppingList st @ [stored_item (t, t1) a, stored_item (t, t2) b]
         \<and> item_id (stored_item (t, t1) a) = item_id (stored_item (t, t2) b)
         \<and> getShoppingList (removeFromShoppingList t st2) = getShoppingList st
         \<and> getShoppingList (snd (toggleShoppingItem t st2))
             = getShoppingList st @ [flip_checked (stored_item (t, t1) a), stored_item (t, t2) b]"
      unfolding Let_def by blast
  qed
  show ?thesis
  proof (intro conjI)
    show "getShoppingList (removeFromShoppingList itemId st)
        = filter (\<lambda>i. item_id i \<noteq> itemId) (getShoppingList st)"
      by (rule removeFromShoppingList_list)
    show "toggleShoppingItem itemId st =
       (let list = getShoppingList st; k = first_with_id itemId list
        in if k < length list then (True, st\<lparr>SHOPPING_LIST := Some (list[k := flip_checked (list ! k)])\<rparr>)
           else (False, st))"
      by (rule toggleShoppingItem_first)
    show "\<not> already_listed a (getShoppingList st) \<and> \<not> already_listed b (getShoppingList st)
        \<and> toLowerCase (name a) \<noteq> toLowerCase (name b) \<and> t \<notin> item_id ` set (getShoppingList st) \<longrightarrow>
       (let st2 = snd (addToShoppingList t t2 b (snd (addToShoppingList t t1 a st)))
        in getShoppingList st2 = getShoppingList st @ [stored_item (t, t1) a, stored_item (t, t2) b]
         \<and> item_id (stored_item (t, t1) a) = item_id (stored_item (t, t2) b)
         \<and> getShoppingList (removeFromShoppingList t st2) = getShoppingList st
         \<and> getShoppingList (snd (toggleShoppingItem t st2))
             = getShoppingList st @ [flip_checked (stored_item (t, t1) a), stored_item (t, t2) b])"
      by (rule third)
  qed
qed

text \<open>
  \<open>Milk\<close> and \<open>Bread\<close> added in the millisecond 1000.
\<close>

theorem remove_every_match_toggle_first_witness:
  "getShoppingList (removeFromShoppingList 1000
      (snd (addToShoppingList 1000 1001 \<lparr>name = ''Bread'', category = ''grains''\<rparr> milk_list))) = []
   \<and> getShoppingList (snd (toggleShoppingItem 1000
      (snd (addToShoppingList 1000 1001 \<lparr>name = ''Bread'', category = ''grains''\<rparr> milk_list)))) =
       [\<lparr>item_id = 1000, item_name = ''Milk'', item_category = ''dairy'', item_checked = True, addedAt = 1000\<rparr>,
        \<lparr>item_id = 1000, item_name = ''Bread'', item_category = ''grains'', item_checked = False, addedAt = 1001\<rparr>]"
  using remove_every_match_toggle_first
    [where st = empty_storage and a = "\<lparr>name = ''Milk'', category = ''dairy''\<rparr>"
       and b = "\<lparr>name = ''Bread'', category = ''grains''\<rparr>" and t = 1000 and ?t1.0 = 1000 and ?t2.0 = 1001
       and itemId = 1000]
  by (simp add: milk_list_def [symmetric] milk_list_items addToShoppingList_list already_listed_def lower_milk
        stored_item_def flip_checked_def Let_def getShoppingList_empty_storage)

subsection \<open>Committing a generated list\<close>

lemma add_each_cong:
  "map (\<lambda>a. (name a, category a)) items = map (\<lambda>a. (name a, category a)) items' \<Longrightarrow>
   add_each clock k items st = add_each clock k items' st"
proof (induction items arbitrary: items' k st)
  case Nil
  then show ?case by simp
next
  case (Cons a items)
  then obtain b rest where i: "items' = b # rest" by (cases items') auto
  with Cons.prems have ab: "name a = name b" "category a = category b"
    and r: "map (\<lambda>a. (name a, category a)) items = map (\<lambda>a. (name a, category a)) rest"
    by auto
  show ?case
    using Cons.IH [OF r] addToShoppingList_cong [OF ab] by (simp add: i)
qed

text \<open>
  From any storage: the stored list grows by the entries whose name, up to case, is
  neither the name of an item stored before nor the name of an earlier entry.
\<close>

lemma add_each_stored:
  "getShoppingList (add_each clock k items st) =
     getShoppingList st @
     map (\<lambda>j. stored_item (clock (k + j)) (items ! j))
       (filter (\<lambda>j. toLowerCase (name (items ! j)) \<notin>
                    set (map (\<lambda>i. toLowerCase (item_name i)) (getShoppingList st))
                    \<union> set (map (\<lambda>a. toLowerCase (name a)) (take j items)))
          [0..<length items])"
proof (induction items arbitrary: k st)
  case Nil
  show ?case by simp
next
  case (Cons a items)
  let ?L = "getShoppingList st"
  let ?st = "snd (addToShoppingList (fst (clock k)) (snd (clock k)) a st)"
  define G where "G = (\<lambda>j. toLowerCase (name ((a # items) ! j)) \<notin>
                    set (map (\<lambda>i. toLowerCase (item_name i)) ?L)
                    \<union> set (map (\<lambda>a. toLowerCase (name a)) (take j (a # items))))"
  define H where "H = (\<lambda>j. toLowerCase (name (items ! j)) \<notin>
                    set (map (\<lambda>i. toLowerCase (item_name i)) (getShoppingList ?st))
                    \<union> set (map (\<lambda>a. toLowerCase (name a)) (take j items)))"
  define f where "f = (\<lambda>j. stored_item (clock (k + j)) ((a # items) ! j))"
  define g where "g = (\<lambda>j. stored_item (clock (Suc k + j)) (items ! j))"
  have fg: "f (Suc j) = g j" for j
    by (simp add: f_def g_def)
  have f0: "f 0 = stored_item (clock k) a"
    by (simp add: f_def)
  have up: "[0..<Suc (length items)] = 0 # map Suc [0..<length items]"
    by (simp add: upt_conv_Cons map_Suc_upt del: upt_Suc)
  have listed: "already_listed a ?L \<longleftrightarrow> \<not> G 0"
    by (force simp: already_listed_iff G_def)
  have IH: "getShoppingList (add_each clock (Suc k) items ?st) =
     getShoppingList ?st @ map g (filter H [0..<length items])"
    unfolding g_def H_def by (rule Cons.IH)
  have shift: "map f (filter G (map Suc xs)) = map g (filter (\<lambda>j. G (Suc j)) xs)" for xs
    by (induction xs) (simp_all add: fg)
  have GH: "G (Suc j) = H j" for j
  proof (cases "G 0")
    case True
    then have "getShoppingList ?st = ?L @ [stored_item (clock k) a]"
      using listed by (simp add: addToShoppingList_list)
    then show ?thesis
      by (auto simp: G_def H_def stored_item_def)
  next
    case False
    then have "getShoppingList ?st = ?L"
      using listed by (simp add: addToShoppingList_list)
    with False show ?thesis
      by (auto simp: G_def H_def)
  qed
  have tail: "map f (filter G (map Suc [0..<length items])) = map g (filter H [0..<length items])"
    by (simp only: shift GH)
  have "getShoppingList (add_each clock k (a # items) st) = ?L @ map f (filter G [0..<length (a # items)])"
  proof (cases "G 0")
    case True
    then have "getShoppingList ?st = ?L @ [stored_item (clock k) a]"
      using listed by (simp add: addToShoppingList_list)
    with True IH tail show ?thesis
      by (simp add: up f0 del: upt_Suc)
  next
    case False
    then have "getShoppingList ?st = ?L"
      using listed by (simp add: addToShoppingList_list)
    with False IH tail show ?thesis
      by (simp add: up del: upt_Suc)
  qed
  then show ?case
    by (simp only: f_def G_def)
qed

text \<open>
  C3, as amended. \<open>generateShoppingList\<close> clears the stored list and passes every
  generated entry to \<open>addToShoppingList\<close>. For every sequence of aggregated entries
  committed that way, the stored list is, in order, one item for every entry that is the
  first with its name up to case, and no item for any other entry: an entry whose name
  equals the name of an earlier one up to case is skipped. The item has the name and the
  category of its entry (\<open>other\<close> for an empty category), is not checked, and has the clock
  readings taken at its entry as \<open>id\<close> and \<open>addedAt\<close>. The amount and the unit are not
  stored: two sequences with the same names and categories give the same storage.
\<close>

theorem commit_stores_names_and_categories:
  fixes items items' :: "aggregated list"
  shows
  "(generateShoppingListFromMealPlan js_add st \<noteq> [] \<longrightarrow>
      generateShoppingList js_add clock st
        = add_each clock 0 (generateShoppingListFromMealPlan js_add st) (clearShoppingList st))
   \<and> getShoppingList (add_each clock 0 items (clearShoppingList st))
        = map (\<lambda>j. stored_item (clock j) (items ! j)) (filter (first_up_to_case items) [0..<length items])
   \<and> (map (\<lambda>a. (name a, category a)) items' = map (\<lambda>a. (name a, category a)) items \<longrightarrow>
        add_each clock 0 items' (clearShoppingList st) = add_each clock 0 items (clearShoppingList st))"
proof -
  have g: "generateShoppingListFromMealPlan js_add st \<noteq> [] \<longrightarrow>
      generateShoppingList js_add clock st
        = add_each clock 0 (generateShoppingListFromMealPlan js_add st) (clearShoppingList st)"
    by (simp add: generateShoppingList_def Let_def)
  have c: "getShoppingList (add_each clock 0 items (clearShoppingList st))
        = map (\<lambda>j. stored_item (clock j) (items ! j)) (filter (first_up_to_case items) [0..<length items])"
    using add_each_stored [of clock 0 items "clearShoppingList st"]
    by (simp add: first_up_to_case_def [abs_def])
  have d: "map (\<lambda>a. (name a, category a)) items' = map (\<lambda>a. (name a, category a)) items \<longrightarrow>
            add_each clock 0 items' (clearShoppingList st) = add_each clock 0 items (clearShoppingList st)"
    using add_each_cong [of items' items clock 0 "clearShoppingList st"] by blast
  from g c d show ?thesis by blast
qed

text \<open>
  The sample week commits one item: \<open>Flour\<close> equals \<open>flour\<close> up to case and is
  skipped; and 350 g of flour is stored as 2 kg of flour is.
\<close>

theorem commit_stores_names_and_categories_witness:
  "generateShoppingListFromMealPlan exact_plus flour_week \<noteq> []
   \<and> getShoppingList (generateShoppingList exact_plus fixed_clock flour_week) =
       [\<lparr>item_id = 1000, item_name = ''flour'', item_category = ''grains'', item_checked = False, addedAt = 1000\<rparr>]
   \<and> map (\<lambda>a. (name a, category a)) [flour_2_kg] = map (\<lambda>a. (name a, category a)) [flour_350_g]
   \<and> add_each fixed_clock 0 [flour_2_kg] (clearShoppingList flour_week)
       = add_each fixed_clock 0 [flour_350_g] (clearShoppingList flour_week)"
proof -
  have l: "generateShoppingListFromMealPlan exact_plus flour_week =
     [\<lparr>name = ''flour'', category = ''grains'', amount = Finite 350, unit_of = ''g'', checked = False\<rparr>,
      \<lparr>name = ''Flour'', category = ''other'', amount = Finite 100, unit_of = [], checked = False\<rparr>]"
    by (rule flour_week_list) simp_all
  have m: "map (\<lambda>a. (name a, category a)) [flour_2_kg] = map (\<lambda>a. (name a, category a)) [flour_350_g]"
    by (simp add: flour_350_g_def flour_2_kg_def)
  show ?thesis
    using m commit_stores_names_and_categories [of exact_plus flour_week fixed_clock "[flour_350_g]" "[flour_2_kg]"]
      commit_stores_names_and_categories
        [of exact_plus flour_week fixed_clock "generateShoppingListFromMealPlan exact_plus flour_week" "[]"]
    by (simp add: l first_up_to_case_def lower_milk stored_item_def fixed_clock_def upt_rec [of 0])
qed

text \<open>
  C3 as stated fails: 350 g of flour and 2 kg of flour are stored as the same item,
  which has neither an amount nor a unit.
\<close>

theorem commit_forgets_amount_counterexample:
  "getShoppingList (add_each fixed_clock 0 [flour_350_g] (clearShoppingList empty_storage)) =
     [\<lparr>item_id = 1000, item_name = ''flour'', item_category = ''grains'', item_checked = False, addedAt = 1000\<rparr>]
   \<and> getShoppingList (add_each fixed_clock 0 [flour_2_kg] (clearShoppingList empty_storage)) =
     [\<lparr>item_id = 1000, item_name = ''flour'', item_category = ''grains'', item_checked = False, addedAt = 1000\<rparr>]
   \<and> amount flour_350_g \<noteq> amount flour_2_kg
   \<and> unit_of flour_350_g \<noteq> unit_of flour_2_kg"
  by (simp add: addToShoppingList_list already_listed_def stored_item_def fixed_clock_def
        flour_350_g_def flour_2_kg_def)

end
